theory Spec2Isabelle
  imports Main "HOL-Library.Word" "HOL-Library.Char_ord" "HOL-Library.List_Lexorder"
    "HOL-Library.Multiset"
begin

section \<open>Values of the Go program\<close>

text \<open>
  Go strings and byte slices are sequences of bytes; both are modelled as \<open>string\<close>
  (a list of 8-bit characters), so the conversions \<^verbatim>\<open>[]byte(s)\<close> and
  \<^verbatim>\<open>string(b)\<close> are the identity.
\<close>

type_synonym bytes = string

text \<open>The struct \<^verbatim>\<open>Error{Code, Message}\<close> of signature.go.\<close>

datatype Error = Error (Code: int) (Message: string)

text \<open>
  The values of Go's \<^verbatim>\<open>error\<close> interface that this package can hold: a pointer to
  an \<^verbatim>\<open>Error\<close> struct, the package variable \<^verbatim>\<open>ErrInvalidPublicKey\<close>, the
  \<^verbatim>\<open>CorruptInputError\<close> of encoding/base64 (its offset is not modelled), and the
  error of a reader that fails.  The nil interface is \<open>None\<close> of
  \<open>error option\<close>.
\<close>

datatype error =
    Err Error
  | ErrInvalidPublicKey
  | CorruptInputError
  | ReadErr string

text \<open>A Go call either returns or panics.\<close>

datatype 'a result = Return 'a | Panic string

definition newline :: char where
  "newline = CHR 0x0A"

section \<open>Functions of the standard library and of the dependencies\<close>

text \<open>
  These functions are not part of the package; they are modelled by their documented
  behaviour, on byte strings.
\<close>

subsection \<open>strconv and strings\<close>

definition digit_char :: "nat \<Rightarrow> char" where
  "digit_char d = char_of (48 + d)"

fun Itoa :: "nat \<Rightarrow> string" where
  "Itoa n = (if n < 10 then [digit_char n] else Itoa (n div 10) @ [digit_char (n mod 10)])"

declare Itoa.simps [simp del]

definition is_upper :: "char \<Rightarrow> bool" where
  "is_upper c = (65 \<le> (of_char c :: nat) \<and> (of_char c :: nat) \<le> 90)"

definition is_lower :: "char \<Rightarrow> bool" where
  "is_lower c = (97 \<le> (of_char c :: nat) \<and> (of_char c :: nat) \<le> 122)"

definition lower_char :: "char \<Rightarrow> char" where
  "lower_char c = (if is_upper c then char_of ((of_char c :: nat) + 32) else c)"

definition upper_char :: "char \<Rightarrow> char" where
  "upper_char c = (if is_lower c then char_of ((of_char c :: nat) - 32) else c)"

definition is_ascii :: "char \<Rightarrow> bool" where
  "is_ascii c = ((of_char c :: nat) < 128)"

text \<open>The letters A to Z of a byte string mapped to a to z, every other byte kept.\<close>

definition ascii_lower :: "string \<Rightarrow> string" where
  "ascii_lower s = map lower_char s"

text \<open>
  \<^verbatim>\<open>strings.ToLower\<close>: in a string of ASCII bytes the letters A to Z are mapped to a to
  z.  A string with a byte from 0x80 on is read rune by rune and mapped by the case tables
  of package unicode (a byte that is no UTF-8 becomes U+FFFD); the tables are not part of
  this development, and the result of the library on such a string is the parameter
  \<open>unicode_lower\<close> applied to it.
\<close>

definition ToLower :: "(string \<Rightarrow> string) \<Rightarrow> string \<Rightarrow> string" where
  "ToLower unicode_lower s = (if list_all is_ascii s then ascii_lower s else unicode_lower s)"

text \<open>\<^verbatim>\<open>strings.Split(s, sep)\<close> for a separator of one byte.\<close>

fun Split :: "string \<Rightarrow> char \<Rightarrow> string list" where
  "Split [] sep = [[]]"
| "Split (c # cs) sep =
     (if c = sep then [] # Split cs sep
      else (case Split cs sep of [] \<Rightarrow> [[c]] | p # ps \<Rightarrow> (c # p) # ps))"

fun Join :: "string list \<Rightarrow> string \<Rightarrow> string" where
  "Join [] sep = []"
| "Join [p] sep = p"
| "Join (p # q # ps) sep = p @ sep @ Join (q # ps) sep"

text \<open>
  \<^verbatim>\<open>strings.TrimSpace\<close> removes the white space of Unicode from both ends of a
  string read as UTF-8.  The white space characters are the six of ASCII, U+0085 and
  U+00A0 (the bytes C2 85 and C2 A0), U+1680 (E1 9A 80), U+2000 to U+200A, U+2028, U+2029
  and U+202F (E2 80 followed by 80 to 8A, A8, A9 or AF), U+205F (E2 81 9F) and U+3000
  (E3 80 80).  A byte that belongs to no well-formed encoding is no white space, and the
  trimming stops there.
\<close>

definition is_space :: "char \<Rightarrow> bool" where
  "is_space c = (c = CHR 0x09 \<or> c = CHR 0x0A \<or> c = CHR 0x0B \<or> c = CHR 0x0C
                 \<or> c = CHR 0x0D \<or> c = CHR '' '')"

definition is_space2 :: "char \<Rightarrow> char \<Rightarrow> bool" where
  "is_space2 c d = (c = CHR 0xC2 \<and> (d = CHR 0x85 \<or> d = CHR 0xA0))"

definition is_space3 :: "char \<Rightarrow> char \<Rightarrow> char \<Rightarrow> bool" where
  "is_space3 c d e =
     (c = CHR 0xE1 \<and> d = CHR 0x9A \<and> e = CHR 0x80
      \<or> c = CHR 0xE2 \<and> d = CHR 0x80
          \<and> (128 \<le> (of_char e :: nat) \<and> (of_char e :: nat) \<le> 138
               \<or> e = CHR 0xA8 \<or> e = CHR 0xA9 \<or> e = CHR 0xAF)
      \<or> c = CHR 0xE2 \<and> d = CHR 0x81 \<and> e = CHR 0x9F
      \<or> c = CHR 0xE3 \<and> d = CHR 0x80 \<and> e = CHR 0x80)"

text \<open>The white space at the start of a string removed.\<close>

fun trim_left :: "string \<Rightarrow> string" where
  "trim_left [] = []"
| "trim_left [c] = (if is_space c then [] else [c])"
| "trim_left [c, d] =
     (if is_space c then trim_left [d] else if is_space2 c d then [] else [c, d])"
| "trim_left (c # d # e # s) =
     (if is_space c then trim_left (d # e # s)
      else if is_space2 c d then trim_left (e # s)
      else if is_space3 c d e then trim_left s
      else c # d # e # s)"

text \<open>The white space at the end removed, on the reversed string (its last byte first).\<close>

fun trim_reversed :: "string \<Rightarrow> string" where
  "trim_reversed [] = []"
| "trim_reversed [e] = (if is_space e then [] else [e])"
| "trim_reversed [e, d] =
     (if is_space e then trim_reversed [d] else if is_space2 d e then [] else [e, d])"
| "trim_reversed (e # d # c # s) =
     (if is_space e then trim_reversed (d # c # s)
      else if is_space2 d e then trim_reversed (c # s)
      else if is_space3 c d e then trim_reversed s
      else e # d # c # s)"

definition TrimSpace :: "string \<Rightarrow> string" where
  "TrimSpace s = rev (trim_reversed (rev (trim_left s)))"

text \<open>\<^verbatim>\<open>strings.TrimRight(s, cutset)\<close> for a cutset of one byte.\<close>

definition TrimRight :: "string \<Rightarrow> char \<Rightarrow> string" where
  "TrimRight s c = rev (dropWhile (\<lambda>x. x = c) (rev s))"

text \<open>\<^verbatim>\<open>strings.Replace(s, old, new, -1)\<close> for \<open>old\<close> and \<open>new\<close> of one byte each.\<close>

definition Replace :: "string \<Rightarrow> char \<Rightarrow> char \<Rightarrow> string" where
  "Replace s old new = map (\<lambda>c. if c = old then new else c) s"

subsection \<open>encoding/base64 and github.com/manifoldco/go-base64\<close>

text \<open>
  \<^verbatim>\<open>base64.NewFromString\<close> of go-base64 is \<^verbatim>\<open>RawURLEncoding.DecodeString\<close> of
  encoding/base64, with the bytes dropped when the decoder returns an error: the
  alphabet \<^verbatim>\<open>A-Z a-z 0-9 - _\<close>, no padding, carriage returns and line feeds skipped,
  a final group of two or three characters giving one or two bytes (its unused low bits
  are not checked), and a final group of one character an error.
\<close>

definition decodeMap :: "char \<Rightarrow> nat option" where
  "decodeMap c =
     (let n = (of_char c :: nat) in
      if 65 \<le> n \<and> n \<le> 90 then Some (n - 65)
      else if 97 \<le> n \<and> n \<le> 122 then Some (n - 71)
      else if 48 \<le> n \<and> n \<le> 57 then Some (n + 4)
      else if c = CHR ''-'' then Some 62
      else if c = CHR ''_'' then Some 63
      else None)"

fun sextets :: "string \<Rightarrow> nat list option" where
  "sextets [] = Some []"
| "sextets (c # cs) =
     (case decodeMap c of
        Some v \<Rightarrow> (case sextets cs of None \<Rightarrow> None | Some vs \<Rightarrow> Some (v # vs))
      | None \<Rightarrow> if c = CHR 0x0A \<or> c = CHR 0x0D then sextets cs else None)"

definition quantum :: "nat \<Rightarrow> nat \<Rightarrow> nat \<Rightarrow> nat \<Rightarrow> nat" where
  "quantum a b c d = a * 2 ^ 18 + b * 2 ^ 12 + c * 2 ^ 6 + d"

fun quanta :: "nat list \<Rightarrow> bytes option" where
  "quanta [] = Some []"
| "quanta [a] = None"
| "quanta [a, b] = Some [char_of (quantum a b 0 0 div 2 ^ 16)]"
| "quanta [a, b, c] =
     Some [char_of (quantum a b c 0 div 2 ^ 16), char_of (quantum a b c 0 div 2 ^ 8)]"
| "quanta (a # b # c # d # rest) =
     (case quanta rest of
        None \<Rightarrow> None
      | Some bs \<Rightarrow>
          Some (char_of (quantum a b c d div 2 ^ 16) # char_of (quantum a b c d div 2 ^ 8)
                # char_of (quantum a b c d) # bs))"

definition DecodeString :: "string \<Rightarrow> bytes option" where
  "DecodeString s = (case sextets s of None \<Rightarrow> None | Some vs \<Rightarrow> quanta vs)"

definition base64_NewFromString :: "string \<Rightarrow> error + bytes" where
  "base64_NewFromString encoded =
     (case DecodeString encoded of None \<Rightarrow> Inl CorruptInputError | Some out \<Rightarrow> Inr out)"

text \<open>
  \<^verbatim>\<open>RawURLEncoding.EncodeToString\<close>: the bytes in groups of six bits, most significant
  first, each written in the URL-safe alphabet; a last group of one or two bytes gives two
  or three characters.
\<close>

definition encodeURL :: "nat \<Rightarrow> char" where
  "encodeURL v =
     (if v < 26 then char_of (65 + v)
      else if v < 52 then char_of (71 + v)
      else if v < 62 then char_of (v - 4)
      else if v = 62 then CHR ''-''
      else CHR ''_'')"

fun groups :: "bytes \<Rightarrow> nat list" where
  "groups [] = []"
| "groups [a] =
     (let n = (of_char a :: nat) * 2 ^ 16 in [n div 2 ^ 18, n div 2 ^ 12 mod 64])"
| "groups [a, b] =
     (let n = (of_char a :: nat) * 2 ^ 16 + of_char b * 2 ^ 8
      in [n div 2 ^ 18, n div 2 ^ 12 mod 64, n div 2 ^ 6 mod 64])"
| "groups (a # b # c # rest) =
     (let n = (of_char a :: nat) * 2 ^ 16 + of_char b * 2 ^ 8 + of_char c
      in n div 2 ^ 18 # n div 2 ^ 12 mod 64 # n div 2 ^ 6 mod 64 # n mod 64 # groups rest)"

definition EncodeToString :: "bytes \<Rightarrow> string" where
  "EncodeToString src = map encodeURL (groups src)"

subsection \<open>encoding/json\<close>

text \<open>
  \<^verbatim>\<open>json.Marshal\<close> of an \<^verbatim>\<open>Error\<close>: the field \<open>Code\<close> is tagged \<^verbatim>\<open>json:"-"\<close>
  and left out, \<open>Message\<close> is written under the key \<^verbatim>\<open>message\<close>.  A string is
  quoted with the escapes of encoding/json (HTML escaping on); bytes from 0x80 on are
  copied, as Go copies well-formed UTF-8.  For this struct the call returns no error.
\<close>

definition hex_char :: "nat \<Rightarrow> char" where
  "hex_char d = (if d < 10 then char_of (48 + d) else char_of (87 + d))"

definition json_char :: "char \<Rightarrow> string" where
  "json_char c =
     (if c = CHR 0x22 \<or> c = CHR 0x5C then [CHR 0x5C, c]
      else if c = CHR 0x0A then [CHR 0x5C, CHR ''n'']
      else if c = CHR 0x0D then [CHR 0x5C, CHR ''r'']
      else if c = CHR 0x09 then [CHR 0x5C, CHR ''t'']
      else if (of_char c :: nat) < 32 \<or> c = CHR ''<'' \<or> c = CHR ''>'' \<or> c = CHR ''&''
      then [CHR 0x5C, CHR ''u'', CHR ''0'', CHR ''0'',
            hex_char ((of_char c :: nat) div 16), hex_char ((of_char c :: nat) mod 16)]
      else [c])"

definition json_string :: "string \<Rightarrow> string" where
  "json_string s = [CHR 0x22] @ concat (map json_char s) @ [CHR 0x22]"

definition json_Marshal :: "Error \<Rightarrow> error + bytes" where
  "json_Marshal e =
     Inr ([CHR ''{''] @ json_string ''message'' @ [CHR '':''] @ json_string (Message e) @ [CHR ''}''])"

subsection \<open>io and bytes\<close>

text \<open>
  An \<^verbatim>\<open>io.Reader\<close> read to its end: the bytes it delivers and the error that ends
  the reading (\<open>None\<close> at end of file).
\<close>

datatype reader = Reader bytes "error option"

fun io_Copy :: "bytes \<Rightarrow> reader \<Rightarrow> bytes \<times> error option" where
  "io_Copy msg (Reader bs err) = (msg @ bs, err)"

fun ReadFrom :: "reader \<Rightarrow> bytes \<times> error option" where
  "ReadFrom (Reader bs err) = (bs, err)"

definition bytes_NewReader :: "bytes \<Rightarrow> reader" where
  "bytes_NewReader b = Reader b None"

subsection \<open>net/http and net/url\<close>

text \<open>
  A \<^verbatim>\<open>http.Header\<close> is a map from field names to the values of the field, in the
  order of the request; indexing it at an absent name gives nil, the empty list.
\<close>

type_synonym Header = "string \<rightharpoonup> string list"

definition Header_index :: "Header \<Rightarrow> string \<Rightarrow> string list" where
  "Header_index h k = (case h k of None \<Rightarrow> [] | Some vs \<Rightarrow> vs)"

text \<open>The bytes of a header field name: the token characters of RFC 7230.\<close>

definition validHeaderFieldByte :: "char \<Rightarrow> bool" where
  "validHeaderFieldByte c =
     (is_upper c \<or> is_lower c \<or> (48 \<le> (of_char c :: nat) \<and> (of_char c :: nat) \<le> 57)
      \<or> c \<in> set ''!#$%&*+-.^_`|~'' \<or> c = CHR 0x27)"

text \<open>
  \<^verbatim>\<open>http.CanonicalHeaderKey\<close>: a name with a byte that is not a token character is
  returned unchanged; otherwise the first letter and every letter after a hyphen become
  upper case and all other letters lower case.
\<close>

fun canonical :: "bool \<Rightarrow> string \<Rightarrow> string" where
  "canonical upper [] = []"
| "canonical upper (c # cs) =
     (let c = (if upper then upper_char c else lower_char c)
      in c # canonical (c = CHR ''-'') cs)"

definition CanonicalHeaderKey :: "string \<Rightarrow> string" where
  "CanonicalHeaderKey s = (if list_all validHeaderFieldByte s then canonical True s else s)"

definition Header_Get :: "Header \<Rightarrow> string \<Rightarrow> string" where
  "Header_Get h key =
     (case Header_index h (CanonicalHeaderKey key) of [] \<Rightarrow> [] | v # vs \<Rightarrow> v)"

definition Header_Set :: "Header \<Rightarrow> string \<Rightarrow> string \<Rightarrow> Header" where
  "Header_Set h key v = h(CanonicalHeaderKey key \<mapsto> [v])"

definition Header_Add :: "Header \<Rightarrow> string \<Rightarrow> string \<Rightarrow> Header" where
  "Header_Add h key v =
     h(CanonicalHeaderKey key \<mapsto> Header_index h (CanonicalHeaderKey key) @ [v])"

text \<open>
  The fields of \<^verbatim>\<open>url.URL\<close> and \<^verbatim>\<open>http.Request\<close> that the package reads.
  \<open>EscapedPath\<close> is the value of the method \<^verbatim>\<open>URL.EscapedPath()\<close>.
\<close>

record url =
  EscapedPath :: string
  RawQuery :: string
  URL_Host :: string

record request =
  Method :: string
  URL :: url
  Host :: string
  Header :: Header
  Body :: reader

definition MethodGet :: string where
  "MethodGet = ''GET''"

subsection \<open>time\<close>

text \<open>
  A \<^verbatim>\<open>time.Time\<close> is an instant, in nanoseconds from the Unix epoch (the instants of
  Go reach far beyond 64 bits of nanoseconds); a \<^verbatim>\<open>time.Duration\<close> is a signed
  64-bit count of nanoseconds, whose arithmetic wraps around.
\<close>

type_synonym Time = int

type_synonym Duration = "64 word"

definition Nanosecond :: Duration where "Nanosecond = 1"
definition Microsecond :: Duration where "Microsecond = 1000 * Nanosecond"
definition Millisecond :: Duration where "Millisecond = 1000 * Microsecond"
definition Second :: Duration where "Second = 1000 * Millisecond"
definition Minute :: Duration where "Minute = 60 * Second"

definition minDuration :: int where "minDuration = - (2 ^ 63)"
definition maxDuration :: int where "maxDuration = 2 ^ 63 - 1"

text \<open>
  \<^verbatim>\<open>t.Sub(u)\<close>: the duration \<open>t - u\<close>; as documented, when the difference does not
  fit a \<^verbatim>\<open>Duration\<close> the minimum or the maximum duration is returned.
  \<^verbatim>\<open>time.Since(t)\<close> is \<^verbatim>\<open>time.Now().Sub(t)\<close>, the default of \<^verbatim>\<open>timeSince\<close>.
\<close>

definition Sub :: "Time \<Rightarrow> Time \<Rightarrow> Duration" where
  "Sub t u =
     (if t - u < minDuration then word_of_int minDuration
      else if t - u > maxDuration then word_of_int maxDuration
      else word_of_int (t - u))"

definition time_Since :: "Time \<Rightarrow> Time \<Rightarrow> Duration" where
  "time_Since now t = Sub now t"

subsection \<open>golang.org/x/crypto/ed25519\<close>

definition PublicKeySize :: nat where
  "PublicKeySize = 32"

text \<open>
  \<^verbatim>\<open>ed25519.Verify(publicKey, message, sig)\<close> reports whether \<open>sig\<close> is a valid
  signature of \<open>message\<close> by \<open>publicKey\<close>, and, as its documentation says, panics if
  \<^verbatim>\<open>len(publicKey)\<close> is not \<^verbatim>\<open>PublicKeySize\<close>.  The signature scheme itself is
  the parameter \<open>valid\<close>; the length check is written out.
\<close>

type_synonym sigscheme = "bytes \<Rightarrow> bytes \<Rightarrow> bytes \<Rightarrow> bool"

definition ed25519_Verify :: "sigscheme \<Rightarrow> bytes \<Rightarrow> bytes \<Rightarrow> bytes \<Rightarrow> bool result" where
  "ed25519_Verify valid publicKey message sig =
     (if length publicKey \<noteq> PublicKeySize
      then Panic (''ed25519: bad public key length: '' @ Itoa (length publicKey))
      else Return (valid publicKey message sig))"

section \<open>The signature chain\<close>

record Signature =
  Value :: bytes
  PublicKey :: bytes
  Endorsement :: bytes

definition Validate :: "sigscheme \<Rightarrow> Signature \<Rightarrow> bytes \<Rightarrow> bytes \<Rightarrow> error option result" where
  "Validate valid s masterPubKey b =
     (case ed25519_Verify valid masterPubKey (PublicKey s) (Endorsement s) of
        Panic p \<Rightarrow> Panic p
      | Return endorsed \<Rightarrow>
          if \<not> endorsed
          then Return (Some (Err (Error 401 ''Request Public Key was not endorsed by Manifold'')))
          else (let livePubKey = PublicKey s in
                case ed25519_Verify valid livePubKey b (Value s) of
                  Panic p \<Rightarrow> Panic p
                | Return payload_ok \<Rightarrow>
                    if \<not> payload_ok
                    then Return (Some (Err (Error 401 ''Request was not signed by included Public Key'')))
                    else Return None))"

definition ParseSignature :: "string \<Rightarrow> error + Signature" where
  "ParseSignature value =
     (let sigerr = Err (Error 400 ''Could not parse Signature chain'');
          parts = Split value CHR '' ''
      in if length parts \<noteq> 3 then Inl sigerr
         else
           (case base64_NewFromString (parts ! 0) of
              Inl err \<Rightarrow> Inl err
            | Inr v \<Rightarrow>
                (case base64_NewFromString (parts ! 1) of
                   Inl err \<Rightarrow> Inl err
                 | Inr k \<Rightarrow>
                     (case base64_NewFromString (parts ! 2) of
                        Inl err \<Rightarrow> Inl err
                      | Inr e \<Rightarrow> Inr \<lparr>Value = v, PublicKey = k, Endorsement = e\<rparr>))))"

section \<open>Canonical form of a request\<close>

definition WriteString :: "bytes \<Rightarrow> string \<Rightarrow> bytes" where
  "WriteString msg s = msg @ s"

definition WriteRune :: "bytes \<Rightarrow> char \<Rightarrow> bytes" where
  "WriteRune msg c = msg @ [c]"

text \<open>The inner loop of \<^verbatim>\<open>Canonize\<close>: every value is trimmed and appended to \<open>hvs\<close>.\<close>

fun trim_values :: "string list \<Rightarrow> string list \<Rightarrow> string list" where
  "trim_values hvs [] = hvs"
| "trim_values hvs (hv # rhvs) = trim_values (hvs @ [TrimSpace hv]) rhvs"

text \<open>
  The loop of \<^verbatim>\<open>Canonize\<close> over the names of the signed headers.  The parameter
  \<open>u\<close> here and in \<open>Canonize\<close> is the Unicode part of \<^verbatim>\<open>strings.ToLower\<close>.
\<close>

fun write_headers :: "(string \<Rightarrow> string) \<Rightarrow> request \<Rightarrow> bytes \<Rightarrow> string list \<Rightarrow> bytes" where
  "write_headers u req msg [] = msg"
| "write_headers u req msg (h # headers) =
     (let ch = CanonicalHeaderKey h;
          rhvs = Header_index (Header req) ch;
          rhvs = (if ch = ''Host''
                  then (let host = Host req;
                            host = (if host = [] then URL_Host (URL req) else host)
                        in [host])
                  else rhvs);
          msg = WriteString msg (ToLower u h);
          msg = WriteString msg '': '';
          hvs = trim_values [] rhvs;
          msg = WriteString msg (Join hvs '', '');
          msg = WriteRune msg newline
      in write_headers u req msg headers)"

text \<open>What one round of that loop appends to the buffer.\<close>

definition code_header_line :: "(string \<Rightarrow> string) \<Rightarrow> request \<Rightarrow> string \<Rightarrow> string" where
  "code_header_line u req h =
     ToLower u h @ '': '' @
     Join (map TrimSpace (if CanonicalHeaderKey h = ''Host''
                          then [if Host req = [] then URL_Host (URL req) else Host req]
                          else Header_index (Header req) (CanonicalHeaderKey h))) '', ''
     @ [newline]"

definition Canonize :: "(string \<Rightarrow> string) \<Rightarrow> request \<Rightarrow> reader \<Rightarrow> bytes \<times> error option" where
  "Canonize u req body =
     (let msg = [];
          method = Method req;
          method = (if method = [] then MethodGet else method);
          msg = WriteString msg (ToLower u method);
          msg = WriteRune msg CHR '' '';
          msg = WriteString msg (EscapedPath (URL req));
          msg = (if length (RawQuery (URL req)) > 0
                 then (let msg = WriteRune msg CHR ''?'';
                           parts = Split (RawQuery (URL req)) CHR ''&'';
                           parts = sort parts
                       in WriteString msg (Join parts ''&''))
                 else msg);
          msg = WriteRune msg newline;
          headers = Split (Header_Get (Header req) ''x-signed-headers'') CHR '' '';
          headers = headers @ [''x-signed-headers''];
          msg = write_headers u req msg headers
      in io_Copy msg body)"

section \<open>The verifier\<close>

record Verifier =
  pk :: bytes

definition NewVerifier :: "string \<Rightarrow> error + Verifier" where
  "NewVerifier publicKey =
     (let spk = Replace publicKey CHR ''+'' CHR ''-'';
          spk = Replace spk CHR ''/'' CHR ''_'';
          spk = TrimRight spk CHR ''=''
      in case base64_NewFromString spk of
           Inl err \<Rightarrow> Inl ErrInvalidPublicKey
         | Inr pkv \<Rightarrow>
             if length pkv \<noteq> PublicKeySize then Inl ErrInvalidPublicKey
             else Inr \<lparr>pk = take PublicKeySize pkv\<rparr>)"

definition ManifoldKey :: string where
  "ManifoldKey = ''PtISNzqQmQPBxNlUw3CdxsWczXbIwyExxlkRqZ7E690''"

definition PermittedTimeSkew :: Duration where
  "PermittedTimeSkew = 5 * Minute"

text \<open>
  What \<^verbatim>\<open>Verify\<close> takes from outside the package: the signature scheme behind
  \<^verbatim>\<open>ed25519.Verify\<close>, \<^verbatim>\<open>time.Parse(time.RFC3339, _)\<close> (\<open>None\<close> when it returns
  an error), the Unicode part of \<^verbatim>\<open>strings.ToLower\<close>, and the package variable
  \<^verbatim>\<open>timeSince\<close>, which the tests replace.
\<close>

record env =
  ed25519_valid :: sigscheme
  parse_RFC3339 :: "string \<Rightarrow> Time option"
  unicode_ToLower :: "string \<Rightarrow> string"
  timeSince :: "Time \<Rightarrow> Duration"

definition Verify :: "env \<Rightarrow> Verifier \<Rightarrow> request \<Rightarrow> reader \<Rightarrow> error option result" where
  "Verify env v req body =
     (let sigHeader = Header_Get (Header req) ''X-Signature'' in
      if sigHeader = []
      then Return (Some (Err (Error 400 ''Missing X-Signature header'')))
      else
        (case ParseSignature sigHeader of
           Inl err \<Rightarrow> Return (Some (Err (Error 400 ''Could not parse X-Signature header'')))
         | Inr sig \<Rightarrow>
             (let headerList = Header_Get (Header req) ''X-Signed-Headers'' in
              if headerList = []
              then Return (Some (Err (Error 400 ''Missing X-Signed-Headers header'')))
              else
                (case parse_RFC3339 env (Header_Get (Header req) ''Date'') of
                   None \<Rightarrow> Return (Some (Err (Error 400 ''Unable to read request date'')))
                 | Some rt \<Rightarrow>
                     (let delta = timeSince env rt;
                          delta = (if sint delta < 0 then - delta else delta)
                      in if sint delta > sint PermittedTimeSkew
                         then Return (Some (Err (Error 400 ''Request time skew is too great'')))
                         else
                           (case Canonize (unicode_ToLower env) req body of
                              (b, Some err) \<Rightarrow>
                                Return (Some (Err (Error 400 ''Unable to read request body'')))
                            | (b, None) \<Rightarrow> Validate (ed25519_valid env) sig (pk v) b))))))"

section \<open>The middleware\<close>

text \<open>
  A \<^verbatim>\<open>http.ResponseWriter\<close> is an interface; what the package does to it is the
  sequence of its calls, in order.
\<close>

datatype rw_call =
    Header_Set_call string string
  | WriteHeader int
  | Write bytes

type_synonym ResponseWriter = "rw_call list"

definition Respond :: "Error \<Rightarrow> ResponseWriter \<Rightarrow> ResponseWriter result" where
  "Respond e rw =
     (case json_Marshal e of
        Inl err \<Rightarrow> Panic ''Error while marshaling error response!''
      | Inr b \<Rightarrow>
          Return (rw @ [Header_Set_call ''Content-Type'' ''application/json'',
                        Header_Set_call ''Content-Length'' (Itoa (length b)),
                        WriteHeader (Code e),
                        Write b]))"

type_synonym HandlerFunc = "ResponseWriter \<Rightarrow> request \<Rightarrow> ResponseWriter result"

text \<open>
  The end of the middleware, after the call of \<^verbatim>\<open>Verify\<close>: the response to the error
  it returned, or the call of the next handler.  The deferred closing of the original
  body has no effect on the response and is left out.
\<close>

definition Negroni_respond :: "error option result \<Rightarrow> ResponseWriter \<Rightarrow> request \<Rightarrow> HandlerFunc \<Rightarrow> ResponseWriter result" where
  "Negroni_respond r rw req next =
     (case r of
        Panic p \<Rightarrow> Panic p
      | Return (Some (Err e)) \<Rightarrow> Respond e rw
      | Return (Some err) \<Rightarrow>
          Respond (Error 401 ''Could not validate authenticity of the request'') rw
      | Return None \<Rightarrow> next rw req)"

definition Negroni :: "env \<Rightarrow> Verifier \<Rightarrow> ResponseWriter \<Rightarrow> request \<Rightarrow> HandlerFunc \<Rightarrow> ResponseWriter result" where
  "Negroni env v rw req next =
     (case ReadFrom (Body req) of
        (b, Some err) \<Rightarrow> Respond (Error 400 ''Could not ready body from request'') rw
      | (b, None) \<Rightarrow>
          (let req = req\<lparr>Body := bytes_NewReader b\<rparr>;
               err = Verify env v req (bytes_NewReader b)
           in Negroni_respond err rw req next))"

definition Wrap :: "env \<Rightarrow> Verifier \<Rightarrow> HandlerFunc \<Rightarrow> HandlerFunc" where
  "Wrap env v handler = (\<lambda>rw req. Negroni env v rw req handler)"

section \<open>The canonical form as the specification words it\<close>

text \<open>
  The header fields of a request as they arrive, name and value in the order of the
  request.  net/http stores them field by field under the canonical form of the name,
  which is what \<^verbatim>\<open>Header.Add\<close> does.
\<close>

definition Header_of :: "(string \<times> string) list \<Rightarrow> Header" where
  "Header_of flds = foldl (\<lambda>h (k, v). Header_Add h k v) Map.empty flds"

text \<open>
  The request line: the method in lower case (GET for an empty method), a space, the
  escaped path and, for a query that is not empty, a question mark and the segments of
  the raw query between ampersands, sorted as strings and joined by ampersands.
\<close>

definition spec_request_line :: "(string \<Rightarrow> string) \<Rightarrow> request \<Rightarrow> string" where
  "spec_request_line u req =
     ToLower u (if Method req = [] then ''GET'' else Method req) @ '' '' @ EscapedPath (URL req)
     @ (if RawQuery (URL req) = [] then []
        else ''?'' @ Join (sort (Split (RawQuery (URL req)) CHR ''&'')) ''&'')"

text \<open>
  The occurrences of a header: the values of the fields whose name is the given name up
  to the case of the letters A to Z, in the order of the request.
\<close>

definition spec_occurrences :: "(string \<times> string) list \<Rightarrow> string \<Rightarrow> string list" where
  "spec_occurrences flds name =
     map snd (filter (\<lambda>(k, v). ascii_lower k = ascii_lower name) flds)"

definition spec_effective_host :: "request \<Rightarrow> string" where
  "spec_effective_host req = (if Host req = [] then URL_Host (URL req) else Host req)"

definition spec_header_values :: "(string \<times> string) list \<Rightarrow> request \<Rightarrow> string \<Rightarrow> string list" where
  "spec_header_values flds req name =
     (if ascii_lower name = ''host'' then [spec_effective_host req]
      else spec_occurrences flds name)"

definition spec_header_line :: "(string \<Rightarrow> string) \<Rightarrow> (string \<times> string) list \<Rightarrow> request \<Rightarrow> string \<Rightarrow> string" where
  "spec_header_line u flds req name =
     ToLower u name @ '': '' @ Join (map TrimSpace (spec_header_values flds req name)) '', ''
     @ [newline]"

text \<open>The value of \<^verbatim>\<open>X-Signed-Headers\<close>: its first occurrence, empty when there is none.\<close>

definition spec_signed_headers :: "(string \<times> string) list \<Rightarrow> string" where
  "spec_signed_headers flds =
     (case spec_occurrences flds ''x-signed-headers'' of [] \<Rightarrow> [] | v # vs \<Rightarrow> v)"

definition spec_header_names :: "(string \<times> string) list \<Rightarrow> string list" where
  "spec_header_names flds = Split (spec_signed_headers flds) CHR '' '' @ [''x-signed-headers'']"

definition spec_header_section :: "(string \<Rightarrow> string) \<Rightarrow> (string \<times> string) list \<Rightarrow> request \<Rightarrow> string" where
  "spec_header_section u flds req =
     concat (map (spec_header_line u flds req) (spec_header_names flds))"

text \<open>The names of the fields of a request are tokens; net/http rejects a request otherwise.\<close>

definition token_names :: "(string \<times> string) list \<Rightarrow> bool" where
  "token_names flds = list_all (\<lambda>(k, v). list_all validHeaderFieldByte k) flds"

section \<open>The error response as the specification words it\<close>

text \<open>
  The JSON object with the single field \<^verbatim>\<open>message\<close>, for a message that JSON writes
  as it is: printable ASCII other than the quotation mark, the backslash and the three
  characters that encoding/json escapes for HTML.
\<close>

definition json_plain :: "string \<Rightarrow> bool" where
  "json_plain msg =
     list_all (\<lambda>c. 32 \<le> (of_char c :: nat) \<and> (of_char c :: nat) < 127
                   \<and> c \<noteq> CHR 0x22 \<and> c \<noteq> CHR 0x5C
                   \<and> c \<noteq> CHR ''<'' \<and> c \<noteq> CHR ''>'' \<and> c \<noteq> CHR ''&'') msg"

definition spec_error_body :: "string \<Rightarrow> bytes" where
  "spec_error_body msg =
     [CHR ''{'', CHR 0x22] @ ''message'' @ [CHR 0x22, CHR '':'', CHR 0x22] @ msg
     @ [CHR 0x22, CHR ''}'']"

definition spec_error_response :: "int \<Rightarrow> string \<Rightarrow> rw_call list" where
  "spec_error_response code msg =
     [Header_Set_call ''Content-Type'' ''application/json'',
      Header_Set_call ''Content-Length'' (Itoa (length (spec_error_body msg))),
      WriteHeader code,
      Write (spec_error_body msg)]"

section \<open>Inputs of the examples\<close>

text \<open>
  A stand-in for the signature scheme in the concrete examples: the signature of a
  message under a key is the key followed by the message.
\<close>

definition example_scheme :: sigscheme where
  "example_scheme k m sg = (sg = k @ m)"

definition key_a :: bytes where
  "key_a = ''aaaaaaaaaaaaaaaaaaaaaaaaaaaaaaaa''"

definition key_b :: bytes where
  "key_b = ''bbbbbbbbbbbbbbbbbbbbbbbbbbbbbbbb''"

text \<open>The request of \<^verbatim>\<open>ExampleCanonize\<close>.\<close>

definition example_request :: request where
  "example_request =
     \<lparr>Method = ''PUT'',
      URL = \<lparr>EscapedPath = ''/v1/resources'', RawQuery = ''foo=bar'', URL_Host = []\<rparr>,
      Host = [],
      Header = Header_Set (Header_Set Map.empty ''X-Signed-Headers'' ''date'')
                 ''Date'' ''2017-03-05T23:53:08Z'',
      Body = Reader ''Test body data'' None\<rparr>"

text \<open>
  A request with several occurrences of a header, a host, and white space around values:
  spaces, U+00A0 (the bytes C2 A0) on both sides of a value and U+2003 (E2 80 83) after
  one.  The last signed name, \<^verbatim>\<open>x-\<close> followed by U+00E9 (C3 A9), is not ASCII.
\<close>

definition example_fields :: "(string \<times> string) list" where
  "example_fields =
     [(''X-Signed-Headers'', ''host DATE x-custom x-absent x-'' @ [CHR 0xC3, CHR 0xA9]),
      (''date'', '' 2017-03-05T23:53:08Z ''),
      (''X-CUSTOM'', [CHR 0xC2, CHR 0xA0] @ ''one'' @ [CHR 0xC2, CHR 0xA0]),
      (''Content-Type'', ''text/plain''),
      (''x-custom'', ''  two'' @ [CHR 0xE2, CHR 0x80, CHR 0x83])]"

definition example_fields_request :: request where
  "example_fields_request =
     \<lparr>Method = [],
      URL = \<lparr>EscapedPath = ''/v1/resources'', RawQuery = ''foo=bar&a=1&A=0'',
             URL_Host = ''url.example''\<rparr>,
      Host = ''host.example'',
      Header = Header_of example_fields,
      Body = Reader ''data'' None\<rparr>"

text \<open>
  A stand-in for \<^verbatim>\<open>time.Parse(time.RFC3339, _)\<close> on the two dates of the examples,
  with their instants in nanoseconds from the epoch; every other text is refused.
\<close>

definition example_parse :: "string \<Rightarrow> Time option" where
  "example_parse s =
     (if s = ''2017-03-05T23:53:08Z'' then Some 1488757988000000000
      else if s = ''2400-01-01T00:00:00Z'' then Some 13569465600000000000
      else None)"

text \<open>
  The Unicode part of \<^verbatim>\<open>strings.ToLower\<close> in the examples: the identity, which is
  what the library returns on the one name of the examples that is not ASCII (U+00E9 is a
  small letter, and \<^verbatim>\<open>x-\<close> is in lower case).
\<close>

definition example_unicode_lower :: "string \<Rightarrow> string" where
  "example_unicode_lower s = s"

text \<open>The environment of the examples, with the clock reading \<open>now\<close>.\<close>

definition example_env :: "Time \<Rightarrow> env" where
  "example_env now =
     \<lparr>ed25519_valid = example_scheme, parse_RFC3339 = example_parse,
      unicode_ToLower = example_unicode_lower, timeSince = time_Since now\<rparr>"

definition example_verifier :: Verifier where
  "example_verifier = \<lparr>pk = key_a\<rparr>"

text \<open>The request of \<^verbatim>\<open>ExampleCanonize\<close> with a date and a signature header.\<close>

definition signed_request :: "string \<Rightarrow> string \<Rightarrow> request" where
  "signed_request date sig =
     \<lparr>Method = ''PUT'',
      URL = \<lparr>EscapedPath = ''/v1/resources'', RawQuery = ''foo=bar'', URL_Host = []\<rparr>,
      Host = [],
      Header = Header_Set (Header_Set (Header_Set Map.empty ''Date'' date)
                 ''X-Signed-Headers'' ''date'') ''X-Signature'' sig,
      Body = Reader ''Test body data'' None\<rparr>"

text \<open>
  Signature headers whose chain is valid in the stand-in scheme under the master key
  \<open>key_a\<close>, for the request dated 2017 and for the request dated 2400: the payload
  signature, the ephemeral key \<open>key_b\<close> and the endorsement, in base64.
\<close>

definition signature_2017 :: string where
  "signature_2017 =
     ''YmJiYmJiYmJiYmJiYmJiYmJiYmJiYmJiYmJiYmJiYmJwdXQgL3YxL3Jlc291cmNlcz9mb289YmFyCmRhdGU6IDIwMTctMDMtMDVUMjM6NTM6MDhaCngtc2lnbmVkLWhlYWRlcnM6IGRhdGUKVGVzdCBib2R5IGRhdGE YmJiYmJiYmJiYmJiYmJiYmJiYmJiYmJiYmJiYmJiYmI YWFhYWFhYWFhYWFhYWFhYWFhYWFhYWFhYWFhYWFhYWFiYmJiYmJiYmJiYmJiYmJiYmJiYmJiYmJiYmJiYmJiYg''"

definition signature_2400 :: string where
  "signature_2400 =
     ''YmJiYmJiYmJiYmJiYmJiYmJiYmJiYmJiYmJiYmJiYmJwdXQgL3YxL3Jlc291cmNlcz9mb289YmFyCmRhdGU6IDI0MDAtMDEtMDFUMDA6MDA6MDBaCngtc2lnbmVkLWhlYWRlcnM6IGRhdGUKVGVzdCBib2R5IGRhdGE YmJiYmJiYmJiYmJiYmJiYmJiYmJiYmJiYmJiYmJiYmI YWFhYWFhYWFhYWFhYWFhYWFhYWFhYWFhYWFhYWFhYWFiYmJiYmJiYmJiYmJiYmJiYmJiYmJiYmJiYmJiYmJiYg''"

definition canonical_2017 :: bytes where
  "canonical_2017 =
     ''put /v1/resources?foo=bar'' @ [newline] @ ''date: 2017-03-05T23:53:08Z'' @ [newline] @
     ''x-signed-headers: date'' @ [newline] @ ''Test body data''"

definition canonical_2400 :: bytes where
  "canonical_2400 =
     ''put /v1/resources?foo=bar'' @ [newline] @ ''date: 2400-01-01T00:00:00Z'' @ [newline] @
     ''x-signed-headers: date'' @ [newline] @ ''Test body data''"

definition example_chain :: "bytes \<Rightarrow> Signature" where
  "example_chain b = \<lparr>Value = key_b @ b, PublicKey = key_b, Endorsement = key_a @ key_b\<rparr>"

text \<open>An inner handler that writes the body of the request it is given.\<close>

definition echo_handler :: HandlerFunc where
  "echo_handler rw req = Return (rw @ [Write (fst (ReadFrom (Body req)))])"

text \<open>The request of \<^verbatim>\<open>ExampleVerifier_Verify\<close> and of the tests, and its body.\<close>

definition test_body :: bytes where
  \<open>test_body =
     ''{"id":"2686c96868emyj61cgt2ma7vdntg4","plan":"low","product":"generators","region":"aws::us-east-1","user_id":"200e7aeg2kf2d6nud8jran3zxnz5j"}''
     @ [newline]\<close>

definition test_request :: request where
  "test_request =
     \<lparr>Method = ''PUT'',
      URL = \<lparr>EscapedPath = ''/v1/resources/2686c96868emyj61cgt2ma7vdntg4'', RawQuery = [],
             URL_Host = ''127.0.0.1:4567''\<rparr>,
      Host = ''127.0.0.1:4567'',
      Header =
        Header_Set (Header_Set (Header_Set (Header_Set (Header_Set Map.empty
          ''Date'' ''2017-03-05T23:53:08Z'')
          ''Content-Length'' ''143'')
          ''Content-Type'' ''application/json'')
          ''X-Signed-Headers'' ''host date content-type content-length'')
          ''X-Signature'' ''Nb9iJZVDFrcf8-dw7AsuSCPtdoxoAr61YVWQe-5b9z_YiuQW73wR7RRsDBPnrBMtXIg_h8yKWsr-ZNRgYbM7CA FzNbTkRjAGjkpwHUbAhjvLsIlAlL_M6EUh5E9OVEwXs qGR6iozBfLUCHbRywz1mHDdGYeqZ0JEcseV4KcwjEVeZtQN54odcJ1_QyZkmHacbQeHEai2-Aw9EF8-Ceh09Cg'',
      Body = Reader test_body None\<rparr>"

section \<open>Validation of the chain\<close>

lemma Validate_cases:
  "Validate valid s m b =
     (case ed25519_Verify valid m (PublicKey s) (Endorsement s) of
        Panic p \<Rightarrow> Panic p
      | Return False \<Rightarrow>
          Return (Some (Err (Error 401 ''Request Public Key was not endorsed by Manifold'')))
      | Return True \<Rightarrow>
          (case ed25519_Verify valid (PublicKey s) b (Value s) of
             Panic p \<Rightarrow> Panic p
           | Return False \<Rightarrow>
               Return (Some (Err (Error 401 ''Request was not signed by included Public Key'')))
           | Return True \<Rightarrow> Return None))"
  by (simp add: Validate_def Let_def split: result.splits bool.splits)

lemma length_key_a: "length key_a = PublicKeySize"
  by (simp add: key_a_def PublicKeySize_def eval_nat_numeral)

lemma length_key_b: "length key_b = PublicKeySize"
  by (simp add: key_b_def PublicKeySize_def eval_nat_numeral)

lemma Itoa_0: "Itoa 0 = ''0''"
  by code_simp

lemma Itoa_5: "Itoa 5 = ''5''"
  by code_simp

text \<open>
  Claim C1.  \<open>Validate\<close> makes the two checks in order.  When the endorsement check
  (the signature \<open>Endorsement\<close> by the master key over the bytes of the ephemeral key)
  returns false, the result is the 401 error "Request Public Key was not endorsed by
  Manifold", and it is so for every payload signature and every canonical buffer: the
  payload check is not made.  When the endorsement check returns true and the payload
  check (the signature \<open>Value\<close> by the ephemeral key over the canonical bytes) returns
  false, the result is the 401 error "Request was not signed by included Public Key".
  The result is success exactly when both checks return true.  For keys of 32 bytes the
  two checks return what the signature scheme says.
\<close>

theorem Validate_two_hop:
  "(ed25519_Verify valid m (PublicKey s) (Endorsement s) = Return False \<longrightarrow>
      Validate valid s m b =
        Return (Some (Err (Error 401 ''Request Public Key was not endorsed by Manifold'')))
      \<and> Validate valid (s\<lparr>Value := sig'\<rparr>) m b' =
        Return (Some (Err (Error 401 ''Request Public Key was not endorsed by Manifold''))))
   \<and> (ed25519_Verify valid m (PublicKey s) (Endorsement s) = Return True
        \<and> ed25519_Verify valid (PublicKey s) b (Value s) = Return False \<longrightarrow>
      Validate valid s m b =
        Return (Some (Err (Error 401 ''Request was not signed by included Public Key''))))
   \<and> (Validate valid s m b = Return None \<longleftrightarrow>
        ed25519_Verify valid m (PublicKey s) (Endorsement s) = Return True
        \<and> ed25519_Verify valid (PublicKey s) b (Value s) = Return True)
   \<and> (length m = PublicKeySize \<and> length (PublicKey s) = PublicKeySize \<longrightarrow>
        ed25519_Verify valid m (PublicKey s) (Endorsement s)
          = Return (valid m (PublicKey s) (Endorsement s))
        \<and> ed25519_Verify valid (PublicKey s) b (Value s)
          = Return (valid (PublicKey s) b (Value s)))"
proof -
  have order: "(ed25519_Verify valid m (PublicKey s) (Endorsement s) = Return False \<longrightarrow>
      Validate valid s m b =
        Return (Some (Err (Error 401 ''Request Public Key was not endorsed by Manifold'')))
      \<and> Validate valid (s\<lparr>Value := sig'\<rparr>) m b' =
        Return (Some (Err (Error 401 ''Request Public Key was not endorsed by Manifold''))))
   \<and> (ed25519_Verify valid m (PublicKey s) (Endorsement s) = Return True
        \<and> ed25519_Verify valid (PublicKey s) b (Value s) = Return False \<longrightarrow>
      Validate valid s m b =
        Return (Some (Err (Error 401 ''Request was not signed by included Public Key''))))"
    by (simp add: Validate_cases)
  have success: "Validate valid s m b = Return None \<longleftrightarrow>
        ed25519_Verify valid m (PublicKey s) (Endorsement s) = Return True
        \<and> ed25519_Verify valid (PublicKey s) b (Value s) = Return True"
    by (simp add: Validate_cases split: result.splits bool.splits)
  have keys: "length m = PublicKeySize \<and> length (PublicKey s) = PublicKeySize \<longrightarrow>
        ed25519_Verify valid m (PublicKey s) (Endorsement s)
          = Return (valid m (PublicKey s) (Endorsement s))
        \<and> ed25519_Verify valid (PublicKey s) b (Value s)
          = Return (valid (PublicKey s) b (Value s))"
    by (simp add: ed25519_Verify_def)
  from order success keys show ?thesis
    by blast
qed

theorem Validate_two_hop_witness:
  "Validate example_scheme
      \<lparr>Value = key_b @ ''msg'', PublicKey = key_b, Endorsement = ''forged''\<rparr> key_a ''msg''
     = Return (Some (Err (Error 401 ''Request Public Key was not endorsed by Manifold'')))
   \<and> Validate example_scheme
      \<lparr>Value = ''forged'', PublicKey = key_b, Endorsement = key_a @ key_b\<rparr> key_a ''msg''
     = Return (Some (Err (Error 401 ''Request was not signed by included Public Key'')))
   \<and> Validate example_scheme
      \<lparr>Value = key_b @ ''msg'', PublicKey = key_b, Endorsement = key_a @ key_b\<rparr> key_a ''msg''
     = Return None"
proof -
  have e_bad: "ed25519_Verify example_scheme key_a key_b ''forged'' = Return False"
    unfolding ed25519_Verify_def length_key_a by (simp add: example_scheme_def key_a_def)
  have e_ok: "ed25519_Verify example_scheme key_a key_b (key_a @ key_b) = Return True"
    by (simp add: ed25519_Verify_def length_key_a example_scheme_def)
  have p_bad: "ed25519_Verify example_scheme key_b ''msg'' ''forged'' = Return False"
    unfolding ed25519_Verify_def length_key_b by (simp add: example_scheme_def key_b_def)
  have p_ok: "ed25519_Verify example_scheme key_b ''msg'' (key_b @ ''msg'') = Return True"
    by (simp add: ed25519_Verify_def length_key_b example_scheme_def)
  show ?thesis
    using Validate_two_hop [of example_scheme key_a
        "\<lparr>Value = key_b @ ''msg'', PublicKey = key_b, Endorsement = ''forged''\<rparr>" "''msg''"]
      Validate_two_hop [of example_scheme key_a
        "\<lparr>Value = ''forged'', PublicKey = key_b, Endorsement = key_a @ key_b\<rparr>" "''msg''"]
      Validate_two_hop [of example_scheme key_a
        "\<lparr>Value = key_b @ ''msg'', PublicKey = key_b, Endorsement = key_a @ key_b\<rparr>" "''msg''"]
    by (simp add: e_bad e_ok p_bad p_ok)
qed

text \<open>
  Claim C8.  What \<open>Validate\<close> does with a chain whose ephemeral public key has not the
  size of an Ed25519 public key: with a master key of the right size it returns the 401
  endorsement error when the endorsement does not verify, and panics in the second call
  of \<^verbatim>\<open>ed25519.Verify\<close> when the endorsement verifies; with a master key of another
  size it panics in the first call.  So the call does not always end in a 401 error.
\<close>

theorem Validate_wrong_length_key:
  "length (PublicKey s) \<noteq> PublicKeySize \<Longrightarrow>
   Validate valid s m b =
     (if length m \<noteq> PublicKeySize
      then Panic (''ed25519: bad public key length: '' @ Itoa (length m))
      else if valid m (PublicKey s) (Endorsement s)
      then Panic (''ed25519: bad public key length: '' @ Itoa (length (PublicKey s)))
      else Return (Some (Err (Error 401 ''Request Public Key was not endorsed by Manifold''))))"
  by (simp add: Validate_cases ed25519_Verify_def)

theorem Validate_wrong_length_key_witness:
  "Validate example_scheme
      \<lparr>Value = ''any'', PublicKey = ''short'', Endorsement = key_a @ ''short''\<rparr> key_a ''msg''
     = Panic ''ed25519: bad public key length: 5''"
proof -
  have short: "length (PublicKey \<lparr>Value = ''any'', PublicKey = ''short'',
                  Endorsement = key_a @ ''short''\<rparr>) \<noteq> PublicKeySize"
    by code_simp
  have five: "length ''short'' = 5"
    by simp
  show ?thesis
    using Validate_wrong_length_key [OF short, of example_scheme key_a "''msg''"]
    by (simp add: length_key_a example_scheme_def Itoa_5 five del: list.size)
qed

lemma Validate_empty_master_key_panics:
  "Validate valid s [] b = Panic ''ed25519: bad public key length: 0''"
  by (simp add: Validate_cases ed25519_Verify_def PublicKeySize_def Itoa_0)

section \<open>Header field names up to case\<close>

lemma of_char_less_256: "(of_char c :: nat) < 256"
  by (metis of_char_mod_256 mod_less_divisor zero_less_numeral)

lemma char_eq_code: "c = d \<longleftrightarrow> (of_char c :: nat) = of_char d"
  by simp

lemma of_char_lower_char:
  "(of_char (lower_char c) :: nat) =
     (if 65 \<le> (of_char c :: nat) \<and> (of_char c :: nat) \<le> 90 then of_char c + 32 else of_char c)"
  using of_char_less_256 [of c] by (simp add: lower_char_def is_upper_def)

lemma of_char_upper_char:
  "(of_char (upper_char c) :: nat) =
     (if 97 \<le> (of_char c :: nat) \<and> (of_char c :: nat) \<le> 122 then of_char c - 32 else of_char c)"
proof -
  have "((of_char c :: nat) - 32) mod 256 = of_char c - 32"
    using of_char_less_256 [of c] by (intro mod_less) arith
  then show ?thesis
    by (simp add: upper_char_def is_lower_def)
qed

lemma valid_code:
  "validHeaderFieldByte c \<longleftrightarrow>
     (let n = (of_char c :: nat) in
        (65 \<le> n \<and> n \<le> 90) \<or> (97 \<le> n \<and> n \<le> 122) \<or> (48 \<le> n \<and> n \<le> 57)
        \<or> n \<in> {33, 35, 36, 37, 38, 39, 42, 43, 45, 46, 94, 95, 96, 124, 126})"
  unfolding validHeaderFieldByte_def is_upper_def is_lower_def Let_def
  by (simp add: char_eq_code [of c] del: of_char_eq_iff) blast

lemma case_arith:
  fixes m n :: nat
  shows "((if 65 \<le> m \<and> m \<le> 90 then m + 32 else m) = (if 65 \<le> n \<and> n \<le> 90 then n + 32 else n))
       = ((if 97 \<le> m \<and> m \<le> 122 then m - 32 else m) = (if 97 \<le> n \<and> n \<le> 122 then n - 32 else n))"
  by (simp split: if_splits) arith

lemma token_arith_lower:
  fixes n :: nat
  shows "(let n = (if 65 \<le> n \<and> n \<le> 90 then n + 32 else n) in
        (65 \<le> n \<and> n \<le> 90) \<or> (97 \<le> n \<and> n \<le> 122) \<or> (48 \<le> n \<and> n \<le> 57)
        \<or> n \<in> {33, 35, 36, 37, 38, 39, 42, 43, 45, 46, 94, 95, 96, 124, 126})
     = (let n = n in
        (65 \<le> n \<and> n \<le> 90) \<or> (97 \<le> n \<and> n \<le> 122) \<or> (48 \<le> n \<and> n \<le> 57)
        \<or> n \<in> {33, 35, 36, 37, 38, 39, 42, 43, 45, 46, 94, 95, 96, 124, 126})"
  unfolding Let_def by (simp split: if_splits)

lemma token_arith_upper:
  fixes n :: nat
  shows "(let n = (if 97 \<le> n \<and> n \<le> 122 then n - 32 else n) in
        (65 \<le> n \<and> n \<le> 90) \<or> (97 \<le> n \<and> n \<le> 122) \<or> (48 \<le> n \<and> n \<le> 57)
        \<or> n \<in> {33, 35, 36, 37, 38, 39, 42, 43, 45, 46, 94, 95, 96, 124, 126})
     = (let n = n in
        (65 \<le> n \<and> n \<le> 90) \<or> (97 \<le> n \<and> n \<le> 122) \<or> (48 \<le> n \<and> n \<le> 57)
        \<or> n \<in> {33, 35, 36, 37, 38, 39, 42, 43, 45, 46, 94, 95, 96, 124, 126})"
  unfolding Let_def by (simp split: if_splits) arith

lemma valid_lower_char: "validHeaderFieldByte (lower_char c) = validHeaderFieldByte c"
  unfolding valid_code of_char_lower_char by (rule token_arith_lower)

lemma valid_upper_char: "validHeaderFieldByte (upper_char c) = validHeaderFieldByte c"
  unfolding valid_code of_char_upper_char by (rule token_arith_upper)

lemma lower_eq_iff_upper_eq: "lower_char c = lower_char d \<longleftrightarrow> upper_char c = upper_char d"
  unfolding char_eq_code [of "lower_char c"] char_eq_code [of "upper_char c"]
    of_char_lower_char of_char_upper_char
  by (rule case_arith)

lemma hyphen_arith_lower:
  fixes m :: nat
  shows "((if 65 \<le> m \<and> m \<le> 90 then m + 32 else m) = 45) = (m = 45)"
  by auto

lemma hyphen_arith_upper:
  fixes m :: nat
  shows "((if 97 \<le> m \<and> m \<le> 122 then m - 32 else m) = 45) = (m = 45)"
  by auto

lemma of_char_hyphen: "(of_char CHR ''-'' :: nat) = 45"
  by simp

lemma hyphen_lower: "lower_char c = CHR ''-'' \<longleftrightarrow> c = CHR ''-''"
  unfolding char_eq_code [of _ "CHR ''-''"] of_char_lower_char of_char_hyphen
  by (rule hyphen_arith_lower)

lemma hyphen_upper: "upper_char c = CHR ''-'' \<longleftrightarrow> c = CHR ''-''"
  unfolding char_eq_code [of _ "CHR ''-''"] of_char_upper_char of_char_hyphen
  by (rule hyphen_arith_upper)

lemma hyphen_same_case: "lower_char c = lower_char d \<Longrightarrow> (c = CHR ''-'') = (d = CHR ''-'')"
  by (metis hyphen_lower)

lemma canonical_eq_iff:
  "canonical u k = canonical u h \<longleftrightarrow> map lower_char k = map lower_char h"
proof (induction k arbitrary: h u)
  case Nil
  then show ?case by (cases h) (simp_all add: Let_def)
next
  case (Cons c cs)
  show ?case
  proof (cases h)
    case Nil
    then show ?thesis by (simp add: Let_def)
  next
    case h: (Cons d ds)
    show ?thesis
    proof (cases "lower_char c = lower_char d")
      case True
      then have flag: "(c = CHR ''-'') = (d = CHR ''-'')"
        by (rule hyphen_same_case)
      have up: "upper_char c = upper_char d"
        using True by (simp add: lower_eq_iff_upper_eq)
      show ?thesis
        using Cons.IH [of "d = CHR ''-''" ds] True up flag
        by (simp add: h Let_def hyphen_lower hyphen_upper)
    next
      case False
      then have "upper_char c \<noteq> upper_char d"
        by (simp add: lower_eq_iff_upper_eq)
      with False show ?thesis
        by (simp add: h Let_def)
    qed
  qed
qed

lemma valid_canonical: "list_all validHeaderFieldByte (canonical u k) = list_all validHeaderFieldByte k"
  by (induction k arbitrary: u) (simp_all add: Let_def valid_lower_char valid_upper_char)

lemma valid_ascii_lower:
  "list_all validHeaderFieldByte (ascii_lower k) = list_all validHeaderFieldByte k"
  by (induction k) (simp_all add: ascii_lower_def valid_lower_char)

lemma CanonicalHeaderKey_eq_iff:
  assumes "list_all validHeaderFieldByte k"
  shows "CanonicalHeaderKey k = CanonicalHeaderKey h \<longleftrightarrow> ascii_lower k = ascii_lower h"
proof (cases "list_all validHeaderFieldByte h")
  case True
  with assms show ?thesis
    by (simp add: CanonicalHeaderKey_def canonical_eq_iff ascii_lower_def)
next
  case False
  have "canonical True k \<noteq> h"
    using False assms valid_canonical [of True k] by auto
  moreover have "ascii_lower k \<noteq> ascii_lower h"
    using False assms valid_ascii_lower [of k] valid_ascii_lower [of h] by auto
  ultimately show ?thesis
    using False assms by (simp add: CanonicalHeaderKey_def)
qed

section \<open>The canonical form\<close>

lemma trim_values_eq: "trim_values hvs rhvs = hvs @ map TrimSpace rhvs"
  by (induction rhvs arbitrary: hvs) simp_all

lemma Header_index_Add:
  "Header_index (Header_Add h k v) key =
     Header_index h key @ (if CanonicalHeaderKey k = key then [v] else [])"
  by (simp add: Header_Add_def Header_index_def)

lemma Header_index_foldl:
  "Header_index (foldl (\<lambda>h (k, v). Header_Add h k v) h0 flds) key =
     Header_index h0 key @ map snd (filter (\<lambda>(k, v). CanonicalHeaderKey k = key) flds)"
proof (induction flds arbitrary: h0)
  case Nil
  then show ?case by simp
next
  case (Cons f flds)
  obtain k v where f: "f = (k, v)"
    by (cases f)
  show ?case
    by (simp add: f Cons.IH Header_index_Add)
qed

lemma Header_index_empty: "Header_index Map.empty key = []"
  by (simp add: Header_index_def)

lemma filter_canonical_key:
  "token_names flds \<Longrightarrow>
   filter (\<lambda>(k, v). CanonicalHeaderKey k = CanonicalHeaderKey name) flds =
   filter (\<lambda>(k, v). ascii_lower k = ascii_lower name) flds"
  by (induction flds) (auto simp: token_names_def CanonicalHeaderKey_eq_iff)

lemma Header_index_Header_of:
  "token_names flds \<Longrightarrow>
   Header_index (Header_of flds) (CanonicalHeaderKey name) = spec_occurrences flds name"
  by (simp add: Header_of_def Header_index_foldl Header_index_empty filter_canonical_key
      spec_occurrences_def)

lemma canonical_host: "CanonicalHeaderKey ''host'' = ''Host''"
  by code_simp

lemma lower_host: "ascii_lower ''host'' = ''host''"
  by code_simp

lemma valid_host: "list_all validHeaderFieldByte ''host''"
  by code_simp

lemma Host_iff: "CanonicalHeaderKey h = ''Host'' \<longleftrightarrow> ascii_lower h = ''host''"
  using CanonicalHeaderKey_eq_iff [OF valid_host, of h]
  unfolding canonical_host lower_host by metis

lemma is_ascii_lower_char: "is_ascii (lower_char c) = is_ascii c"
proof (cases "is_upper c")
  case True
  then have "(of_char c :: nat) < 128"
    by (simp add: is_upper_def)
  with True show ?thesis
    by (simp add: is_ascii_def of_char_lower_char)
next
  case False
  then show ?thesis
    by (simp add: lower_char_def)
qed

lemma is_ascii_ascii_lower: "list_all is_ascii (ascii_lower s) = list_all is_ascii s"
  by (induction s) (simp_all add: ascii_lower_def is_ascii_lower_char)

lemma ascii_host: "list_all is_ascii ''host''"
  by code_simp

lemma ToLower_host:
  assumes "ascii_lower name = ''host''"
  shows "ToLower u name = ''host''"
proof -
  have "list_all is_ascii name"
    using is_ascii_ascii_lower [of name] ascii_host unfolding assms by simp
  then show ?thesis
    by (simp add: ToLower_def assms)
qed

lemma Header_Get_Header_of:
  "token_names flds \<Longrightarrow>
   Header_Get (Header_of flds) name = (case spec_occurrences flds name of [] \<Rightarrow> [] | v # vs \<Rightarrow> v)"
  by (simp add: Header_Get_def Header_index_Header_of)

lemma write_headers_step:
  "write_headers u req msg (h # hs) = write_headers u req (msg @ code_header_line u req h) hs"
  by (simp add: Let_def WriteString_def WriteRune_def trim_values_eq code_header_line_def)

lemma write_headers_append:
  "write_headers u req msg hs = msg @ concat (map (code_header_line u req) hs)"
proof (induction hs arbitrary: msg)
  case Nil
  then show ?case by simp
next
  case (Cons h hs)
  show ?case
    unfolding write_headers_step Cons.IH by simp
qed

lemma code_header_line_spec:
  assumes "token_names flds" and "Header req = Header_of flds"
  shows "code_header_line u req h = spec_header_line u flds req h"
  by (simp add: code_header_line_def spec_header_line_def spec_header_values_def
      spec_effective_host_def Host_iff assms Header_index_Header_of)

lemma write_headers_spec:
  assumes "token_names flds" and "Header req = Header_of flds"
  shows "write_headers u req msg hs = msg @ concat (map (spec_header_line u flds req) hs)"
  unfolding write_headers_append
  by (simp add: code_header_line_spec [OF assms] cong: map_cong)

lemma Canonize_request_line:
  "Canonize u req (Reader bs err) =
     (spec_request_line u req @ [newline]
      @ concat (map (code_header_line u req)
          (Split (Header_Get (Header req) ''x-signed-headers'') CHR '' '' @ [''x-signed-headers'']))
      @ bs, err)"
  unfolding Canonize_def Let_def write_headers_append
  by (simp add: WriteString_def WriteRune_def spec_request_line_def MethodGet_def)

lemma Canonize_closed_form:
  assumes "token_names flds" and "Header req = Header_of flds"
  shows "Canonize u req (Reader bs err) =
     (spec_request_line u req @ [newline] @ spec_header_section u flds req @ bs, err)"
  unfolding Canonize_request_line
  by (simp add: code_header_line_spec [OF assms] spec_header_section_def spec_header_names_def
      spec_signed_headers_def assms Header_Get_Header_of cong: map_cong)

text \<open>
  Claim C2.  For the request of the example (method PUT, path /v1/resources, raw query
  foo=bar, X-Signed-Headers "date", Date "2017-03-05T23:53:08Z", body "Test body data")
  \<open>Canonize\<close> returns exactly the four lines below, separated by line feeds, with no
  line feed after the body, and no error.
\<close>

theorem Canonize_example:
  "Canonize u example_request (Reader ''Test body data'' None) =
     (''put /v1/resources?foo=bar'' @ [newline] @
      ''date: 2017-03-05T23:53:08Z'' @ [newline] @
      ''x-signed-headers: date'' @ [newline] @
      ''Test body data'', None)"
  by code_simp

text \<open>
  The canonical form of the request of \<^verbatim>\<open>ExampleVerifier_Verify\<close>: the request line
  without a question mark, the host taken from the Host field, the three other signed
  headers in the order of the list, the line of the list itself, and the body.
\<close>

theorem Canonize_test_request:
  "Canonize u test_request (Reader test_body None) =
     (''put /v1/resources/2686c96868emyj61cgt2ma7vdntg4'' @ [newline] @
      ''host: 127.0.0.1:4567'' @ [newline] @
      ''date: 2017-03-05T23:53:08Z'' @ [newline] @
      ''content-type: application/json'' @ [newline] @
      ''content-length: 143'' @ [newline] @
      ''x-signed-headers: host date content-type content-length'' @ [newline] @
      test_body, None)"
  by code_simp

text \<open>
  Claim C3.  The canonical form begins with the request line and a line feed.  The
  request line is the method in lower case (GET when the method is empty), a space and
  the escaped path; when the raw query is empty nothing follows, and otherwise a question
  mark follows and the segments of the raw query between ampersands, sorted as whole
  strings in the order of their bytes and joined by ampersands.  The sorted list is the
  only ordered rearrangement of the segments.
\<close>

theorem Canonize_first_line:
  "take (length (spec_request_line u req) + 1) (fst (Canonize u req body))
     = spec_request_line u req @ [newline]
   \<and> (RawQuery (URL req) = [] \<longrightarrow>
        spec_request_line u req =
          ToLower u (if Method req = [] then ''GET'' else Method req) @ '' '' @ EscapedPath (URL req))
   \<and> (RawQuery (URL req) \<noteq> [] \<longrightarrow>
        spec_request_line u req =
          ToLower u (if Method req = [] then ''GET'' else Method req) @ '' '' @ EscapedPath (URL req)
          @ ''?'' @ Join (sort (Split (RawQuery (URL req)) CHR ''&'')) ''&'')
   \<and> (\<forall>ps. sorted ps \<and> mset ps = mset (Split (RawQuery (URL req)) CHR ''&'') \<longleftrightarrow>
          ps = sort (Split (RawQuery (URL req)) CHR ''&''))"
proof -
  obtain bs err where body: "body = Reader bs err"
    by (cases body)
  have "take (length (spec_request_line u req) + 1) (fst (Canonize u req body))
          = spec_request_line u req @ [newline]"
    unfolding body Canonize_request_line by simp
  moreover have "\<forall>ps. sorted ps \<and> mset ps = mset (Split (RawQuery (URL req)) CHR ''&'') \<longleftrightarrow>
          ps = sort (Split (RawQuery (URL req)) CHR ''&'')"
    by (metis sorted_sort mset_sort properties_for_sort)
  ultimately show ?thesis
    by (simp add: spec_request_line_def)
qed

lemma example_request_line:
  "spec_request_line u example_fields_request = ''get /v1/resources?A=0&a=1&foo=bar''"
  by code_simp

theorem Canonize_first_line_witness:
  "take 34 (fst (Canonize example_unicode_lower example_fields_request (Reader ''data'' None)))
     = ''get /v1/resources?A=0&a=1&foo=bar'' @ [newline]"
proof -
  have len: "length ''get /v1/resources?A=0&a=1&foo=bar'' + 1 = 34"
    by simp
  show ?thesis
    using Canonize_first_line [of example_unicode_lower example_fields_request
        "Reader ''data'' None"]
    unfolding example_request_line len by simp
qed

text \<open>
  Claim C4.  For a request whose fields have token names: after the request line the
  canonical form holds one line for each name of the X-Signed-Headers value split at
  spaces, in that order, and then one for the name x-signed-headers, followed by the
  bytes of the body.  The line of a name is the name in lower case (as
  \<^verbatim>\<open>strings.ToLower\<close> writes it), a colon and a space, the values joined by a comma and
  a space, and a line feed, where the values are the effective host (the Host field, else
  the host of the URL) when the name is host up to the case of its letters, and otherwise
  the values of the fields whose name is that name up to the case of the letters A to Z,
  in request order; each value is trimmed of the white space of Unicode at both ends.  A
  header that does not occur gives an empty value.  The last line is that of
  x-signed-headers with the values of that header.
\<close>

theorem Canonize_header_section:
  assumes "token_names flds" and "Header req = Header_of flds"
  shows "fst (Canonize u req body) =
           spec_request_line u req @ [newline]
           @ concat (map (spec_header_line u flds req) (Split (spec_signed_headers flds) CHR '' ''))
           @ spec_header_line u flds req ''x-signed-headers''
           @ fst (ReadFrom body)
         \<and> spec_header_line u flds req ''x-signed-headers'' =
             ''x-signed-headers: ''
             @ Join (map TrimSpace (spec_occurrences flds ''x-signed-headers'')) '', '' @ [newline]
         \<and> (ascii_lower name = ''host'' \<longrightarrow>
              spec_header_line u flds req name =
                ''host: ''
                @ TrimSpace (if Host req = [] then URL_Host (URL req) else Host req) @ [newline])
         \<and> (ascii_lower name \<noteq> ''host'' \<longrightarrow>
              spec_header_line u flds req name =
                ToLower u name @ '': ''
                @ Join (map TrimSpace
                          (map snd (filter (\<lambda>(k, v). ascii_lower k = ascii_lower name) flds))) '', ''
                @ [newline])
         \<and> (ascii_lower name \<noteq> ''host'' \<and> spec_occurrences flds name = [] \<longrightarrow>
              spec_header_line u flds req name = ToLower u name @ '': '' @ [newline])
         \<and> (list_all is_ascii name \<longrightarrow> ToLower u name = map lower_char name)"
proof -
  obtain bs err where body: "body = Reader bs err"
    by (cases body)
  have lower: "ToLower u ''x-signed-headers'' = ''x-signed-headers''"
    by code_simp
  have not_host: "ascii_lower ''x-signed-headers'' \<noteq> ''host''"
    by code_simp
  have canon: "fst (Canonize u req body) =
           spec_request_line u req @ [newline]
           @ concat (map (spec_header_line u flds req) (Split (spec_signed_headers flds) CHR '' ''))
           @ spec_header_line u flds req ''x-signed-headers''
           @ fst (ReadFrom body)"
    unfolding body Canonize_closed_form [OF assms]
    by (simp add: spec_header_section_def spec_header_names_def)
  have decl: "spec_header_line u flds req ''x-signed-headers'' =
             ''x-signed-headers: ''
             @ Join (map TrimSpace (spec_occurrences flds ''x-signed-headers'')) '', '' @ [newline]"
    unfolding spec_header_line_def spec_header_values_def lower using not_host by simp
  have host: "spec_header_line u flds req name =
                ''host: ''
                @ TrimSpace (if Host req = [] then URL_Host (URL req) else Host req) @ [newline]"
    if "ascii_lower name = ''host''"
    using that ToLower_host [OF that, of u]
    by (simp add: spec_header_line_def spec_header_values_def spec_effective_host_def)
  have other: "spec_header_line u flds req name =
                ToLower u name @ '': ''
                @ Join (map TrimSpace
                          (map snd (filter (\<lambda>(k, v). ascii_lower k = ascii_lower name) flds))) '', ''
                @ [newline]"
    if "ascii_lower name \<noteq> ''host''"
    using that by (simp add: spec_header_line_def spec_header_values_def spec_occurrences_def)
  have absent: "spec_header_line u flds req name = ToLower u name @ '': '' @ [newline]"
    if "ascii_lower name \<noteq> ''host''" and "spec_occurrences flds name = []"
    using that by (simp add: spec_header_line_def spec_header_values_def)
  have ascii: "ToLower u name = map lower_char name" if "list_all is_ascii name"
    using that by (simp add: ToLower_def ascii_lower_def)
  show ?thesis
    using canon decl host other absent ascii by blast
qed

lemma example_fields_tokens: "token_names example_fields"
  by code_simp

lemma example_header_lines:
  "spec_request_line example_unicode_lower example_fields_request @ [newline]
   @ concat (map (spec_header_line example_unicode_lower example_fields example_fields_request)
       (Split (spec_signed_headers example_fields) CHR '' ''))
   @ spec_header_line example_unicode_lower example_fields example_fields_request
       ''x-signed-headers''
   @ fst (ReadFrom (Reader ''data'' None))
   = ''get /v1/resources?A=0&a=1&foo=bar'' @ [newline] @
     ''host: host.example'' @ [newline] @
     ''date: 2017-03-05T23:53:08Z'' @ [newline] @
     ''x-custom: one, two'' @ [newline] @
     ''x-absent: '' @ [newline] @
     ''x-'' @ [CHR 0xC3, CHR 0xA9] @ '': '' @ [newline] @
     ''x-signed-headers: host DATE x-custom x-absent x-'' @ [CHR 0xC3, CHR 0xA9, newline] @
     ''data''"
  by code_simp

theorem Canonize_header_section_witness:
  "token_names example_fields
   \<and> Header example_fields_request = Header_of example_fields
   \<and> fst (Canonize example_unicode_lower example_fields_request (Reader ''data'' None)) =
       ''get /v1/resources?A=0&a=1&foo=bar'' @ [newline] @
       ''host: host.example'' @ [newline] @
       ''date: 2017-03-05T23:53:08Z'' @ [newline] @
       ''x-custom: one, two'' @ [newline] @
       ''x-absent: '' @ [newline] @
       ''x-'' @ [CHR 0xC3, CHR 0xA9] @ '': '' @ [newline] @
       ''x-signed-headers: host DATE x-custom x-absent x-'' @ [CHR 0xC3, CHR 0xA9, newline] @
       ''data''"
proof -
  have hdr: "Header example_fields_request = Header_of example_fields"
    by (simp add: example_fields_request_def)
  have "fst (Canonize example_unicode_lower example_fields_request (Reader ''data'' None)) =
       spec_request_line example_unicode_lower example_fields_request @ [newline]
       @ concat (map (spec_header_line example_unicode_lower example_fields example_fields_request)
           (Split (spec_signed_headers example_fields) CHR '' ''))
       @ spec_header_line example_unicode_lower example_fields example_fields_request
           ''x-signed-headers''
       @ fst (ReadFrom (Reader ''data'' None))"
    using Canonize_header_section [OF example_fields_tokens hdr,
        of example_unicode_lower "Reader ''data'' None" "[]"]
    by blast
  then show ?thesis
    unfolding example_header_lines using example_fields_tokens hdr by simp
qed

section \<open>Parsing the signature header\<close>

lemma ParseSignature_three:
  "Split value CHR '' '' = [a, b, c] \<Longrightarrow>
   ParseSignature value =
     (case DecodeString a of
        None \<Rightarrow> Inl CorruptInputError
      | Some v \<Rightarrow>
          (case DecodeString b of
             None \<Rightarrow> Inl CorruptInputError
           | Some k \<Rightarrow>
               (case DecodeString c of
                  None \<Rightarrow> Inl CorruptInputError
                | Some e \<Rightarrow> Inr \<lparr>Value = v, PublicKey = k, Endorsement = e\<rparr>)))"
  by (simp add: ParseSignature_def base64_NewFromString_def split: option.splits)

lemma length_three: "length xs = 3 \<Longrightarrow> \<exists>a b c. xs = [a, b, c]"
  by (cases xs; simp; cases "tl xs"; simp; cases "tl (tl xs)"; simp)

text \<open>
  Claim C7, against the claim as stated: the header \<^verbatim>\<open>AA  AA\<close>, with two spaces, splits
  into three tokens of which the second is empty, and is parsed into a chain with an
  empty public key; and the header \<^verbatim>\<open>AA ! AA\<close>, whose second token is no base64, fails
  with the error of the decoder, which is no \<^verbatim>\<open>Error\<close> with a status code.
\<close>

theorem ParseSignature_counterexample:
  "Split ''AA  AA'' CHR '' '' = [''AA'', [], ''AA'']
   \<and> ParseSignature ''AA  AA'' =
       Inr \<lparr>Value = [CHR 0x00], PublicKey = [], Endorsement = [CHR 0x00]\<rparr>
   \<and> ParseSignature ''AA ! AA'' = Inl CorruptInputError"
  by (simp add: ParseSignature_def base64_NewFromString_def DecodeString_def decodeMap_def
      quantum_def char_of_def)

text \<open>
  Claim C7, amended.  \<open>ParseSignature\<close> succeeds exactly when the header splits at single
  spaces into exactly three tokens each of which decodes as unpadded URL-safe base64 (an
  empty token decodes to an empty field), and then returns the three decoded fields.
  When the number of tokens is not three it fails with the 400 error "Could not parse
  Signature chain"; when there are three tokens and one does not decode it fails with
  the error of the decoder.
\<close>

theorem ParseSignature_amended:
  "(length (Split value CHR '' '') \<noteq> 3 \<longrightarrow>
      ParseSignature value = Inl (Err (Error 400 ''Could not parse Signature chain'')))
   \<and> (\<forall>a b c. Split value CHR '' '' = [a, b, c]
         \<and> (DecodeString a = None \<or> DecodeString b = None \<or> DecodeString c = None) \<longrightarrow>
      ParseSignature value = Inl CorruptInputError)
   \<and> (\<forall>s. ParseSignature value = Inr s \<longleftrightarrow>
         (\<exists>a b c. Split value CHR '' '' = [a, b, c]
            \<and> DecodeString a = Some (Value s) \<and> DecodeString b = Some (PublicKey s)
            \<and> DecodeString c = Some (Endorsement s) \<and> Signature.more s = ()))
   \<and> DecodeString [] = Some []"
proof (intro conjI allI impI)
  assume "length (Split value CHR '' '') \<noteq> 3"
  then show "ParseSignature value = Inl (Err (Error 400 ''Could not parse Signature chain''))"
    by (simp add: ParseSignature_def)
next
  fix a b c
  assume "Split value CHR '' '' = [a, b, c]
            \<and> (DecodeString a = None \<or> DecodeString b = None \<or> DecodeString c = None)"
  then show "ParseSignature value = Inl CorruptInputError"
    by (auto simp: ParseSignature_three split: option.splits)
next
  fix s :: Signature
  show "ParseSignature value = Inr s \<longleftrightarrow>
         (\<exists>a b c. Split value CHR '' '' = [a, b, c]
            \<and> DecodeString a = Some (Value s) \<and> DecodeString b = Some (PublicKey s)
            \<and> DecodeString c = Some (Endorsement s) \<and> Signature.more s = ())"
  proof (cases "length (Split value CHR '' '') = 3")
    case True
    then obtain a b c where abc: "Split value CHR '' '' = [a, b, c]"
      using length_three by blast
    show ?thesis
      unfolding ParseSignature_three [OF abc] abc
      by (cases s) (auto split: option.splits)
  next
    case False
    then show ?thesis
      by (auto simp: ParseSignature_def)
  qed
next
  show "DecodeString [] = Some []"
    by (simp add: DecodeString_def)
qed

theorem ParseSignature_amended_witness:
  "ParseSignature ''AA AQ Ag'' =
     Inr \<lparr>Value = [CHR 0x00], PublicKey = [CHR 0x01], Endorsement = [CHR 0x02]\<rparr>
   \<and> ParseSignature ''AA AQ'' = Inl (Err (Error 400 ''Could not parse Signature chain''))
   \<and> ParseSignature ''AA A Ag'' = Inl CorruptInputError"
proof -
  have s3: "Split ''AA AQ Ag'' CHR '' '' = [''AA'', ''AQ'', ''Ag'']"
    by simp
  have s2: "length (Split ''AA AQ'' CHR '' '') \<noteq> 3"
    by simp
  have sb: "Split ''AA A Ag'' CHR '' '' = [''AA'', ''A'', ''Ag'']"
    by simp
  have d0: "DecodeString ''AA'' = Some [CHR 0x00]"
    by (simp add: DecodeString_def decodeMap_def quantum_def char_of_def bit_Suc_0_iff)
  have d1: "DecodeString ''AQ'' = Some [CHR 0x01]"
    by (simp add: DecodeString_def decodeMap_def quantum_def char_of_def bit_Suc_0_iff)
  have d2: "DecodeString ''Ag'' = Some [CHR 0x02]"
    by (simp add: DecodeString_def decodeMap_def quantum_def char_of_def bit_Suc_0_iff)
  have db: "DecodeString ''A'' = None"
    by (simp add: DecodeString_def decodeMap_def quantum_def char_of_def bit_Suc_0_iff)
  have "ParseSignature ''AA AQ Ag'' =
     Inr \<lparr>Value = [CHR 0x00], PublicKey = [CHR 0x01], Endorsement = [CHR 0x02]\<rparr>"
    using ParseSignature_amended [of "''AA AQ Ag''"] s3 d0 d1 d2 by simp
  moreover have "ParseSignature ''AA AQ'' = Inl (Err (Error 400 ''Could not parse Signature chain''))"
    using ParseSignature_amended [of "''AA AQ''"] s2 by blast
  moreover have "ParseSignature ''AA A Ag'' = Inl CorruptInputError"
    using ParseSignature_amended [of "''AA A Ag''"] sb db by blast
  ultimately show ?thesis
    by blast
qed

section \<open>Construction of the verifier\<close>

lemma div_6_12: "(n::nat) div 64 div 64 = n div 4096"
  by (simp add: div_mult2_eq [symmetric])

lemma div_6_18: "(n::nat) div 4096 div 64 = n div 262144"
  by (simp add: div_mult2_eq [symmetric])

lemma split_quantum:
  fixes n :: nat
  shows "(n div 262144) * 262144 + (n div 4096 mod 64) * 4096 + (n div 64 mod 64) * 64 + n mod 64 = n"
proof -
  define q1 where "q1 = n div 64"
  define q2 where "q2 = n div 4096"
  define q3 where "q3 = n div 262144"
  have a: "n = q1 * 64 + n mod 64"
    by (simp add: q1_def)
  have b: "q1 = q2 * 64 + q1 mod 64"
    unfolding q1_def q2_def div_6_12 [symmetric] by simp
  have c: "q2 = q3 * 64 + q2 mod 64"
    unfolding q2_def q3_def div_6_18 [symmetric] by simp
  have "n = ((q3 * 64 + q2 mod 64) * 64 + q1 mod 64) * 64 + n mod 64"
    using a b c by simp
  then have "n = q3 * 262144 + (q2 mod 64) * 4096 + (q1 mod 64) * 64 + n mod 64"
    by (simp add: algebra_simps)
  then show ?thesis
    unfolding q1_def q2_def q3_def by simp
qed

lemma quantum_groups:
  "quantum (n div 2 ^ 18) (n div 2 ^ 12 mod 64) (n div 2 ^ 6 mod 64) (n mod 64) = n"
  using split_quantum [of n] by (simp add: quantum_def)

lemma quantum_two_bytes:
  fixes a b :: nat
  defines "n \<equiv> a * 2 ^ 16 + b * 2 ^ 8"
  shows "quantum (n div 2 ^ 18) (n div 2 ^ 12 mod 64) (n div 2 ^ 6 mod 64) 0 = n"
proof -
  have "n = 64 * (a * 1024 + b * 4)"
    by (simp add: n_def)
  then have "n mod 64 = 0"
    by (simp only: mod_mult_self1_is_0)
  then show ?thesis
    using quantum_groups [of n] by simp
qed

lemma quantum_one_byte:
  fixes a :: nat
  defines "n \<equiv> a * 2 ^ 16"
  shows "quantum (n div 2 ^ 18) (n div 2 ^ 12 mod 64) 0 0 = n"
proof -
  have n64: "n = 64 * (64 * (a * 16))"
    by (simp add: n_def)
  then have m0: "n mod 64 = 0"
    by (simp only: mod_mult_self1_is_0)
  have "n div 64 = 64 * (a * 16)"
    unfolding n64 by simp
  then have "n div 64 mod 64 = 0"
    by (simp only: mod_mult_self1_is_0)
  then show ?thesis
    using quantum_groups [of n] m0 by simp
qed

lemma three_bytes:
  fixes A B C :: nat
  assumes "B < 256" and "C < 256"
  shows "(A * 65536 + B * 256 + C) div 65536 = A"
    and "(A * 65536 + B * 256 + C) div 256 = A * 256 + B"
    and "(A * 65536 + B * 256 + C) mod 256 = C"
proof -
  show "(A * 65536 + B * 256 + C) div 65536 = A"
    using assms by simp
  show "(A * 65536 + B * 256 + C) div 256 = A * 256 + B"
    using assms by simp
  have "A * 65536 + B * 256 + C = C + 256 * (A * 256 + B)"
    by simp
  then show "(A * 65536 + B * 256 + C) mod 256 = C"
    using assms by (simp only: mod_mult_self2 mod_less)
qed

lemma char_of_three_bytes:
  fixes A B C :: nat
  assumes "B < 256" and "C < 256"
  shows "char_of ((A * 65536 + B * 256 + C) div 65536) = (char_of A :: char)"
    and "char_of ((A * 65536 + B * 256 + C) div 256) = (char_of B :: char)"
    and "char_of (A * 65536 + B * 256 + C) = (char_of C :: char)"
proof -
  let ?n = "A * 65536 + B * 256 + C"
  show "char_of (?n div 65536) = (char_of A :: char)"
    by (simp add: three_bytes(1) [OF assms])
  have "(char_of (?n div 256) :: char) = char_of ((A * 256 + B) mod 256)"
    unfolding three_bytes(2) [OF assms] by (simp only: char_of_mod_256)
  then show "char_of (?n div 256) = (char_of B :: char)"
    by simp
  have "(char_of ?n :: char) = char_of (?n mod 256)"
    by (simp only: char_of_mod_256)
  then show "char_of ?n = (char_of C :: char)"
    unfolding three_bytes(3) [OF assms] by simp
qed

lemma quanta_groups: "quanta (groups src) = Some src"
proof (induction src rule: groups.induct)
  case 1
  then show ?case by simp
next
  case (2 a)
  have "quantum ((of_char a * 2 ^ 16) div 2 ^ 18) ((of_char a * 2 ^ 16) div 2 ^ 12 mod 64) 0 0
          = of_char a * 2 ^ 16"
    by (rule quantum_one_byte)
  moreover have "(char_of (((of_char a :: nat) * 65536 + 0 * 256 + 0) div 65536) :: char)
          = char_of (of_char a :: nat)"
    by (rule char_of_three_bytes) simp_all
  ultimately show ?case
    by (simp add: Let_def)
next
  case (3 a b)
  let ?n = "(of_char a :: nat) * 2 ^ 16 + of_char b * 2 ^ 8"
  have "quantum (?n div 2 ^ 18) (?n div 2 ^ 12 mod 64) (?n div 2 ^ 6 mod 64) 0 = ?n"
    by (rule quantum_two_bytes)
  moreover have "(char_of (((of_char a :: nat) * 65536 + of_char b * 256 + 0) div 65536) :: char)
          = char_of (of_char a :: nat)"
    and "(char_of (((of_char a :: nat) * 65536 + of_char b * 256 + 0) div 256) :: char)
          = char_of (of_char b :: nat)"
    by (rule char_of_three_bytes; simp add: of_char_less_256)+
  ultimately show ?case
    by (simp add: Let_def)
next
  case (4 a b c rest)
  let ?n = "(of_char a :: nat) * 2 ^ 16 + of_char b * 2 ^ 8 + of_char c"
  have "quantum (?n div 2 ^ 18) (?n div 2 ^ 12 mod 64) (?n div 2 ^ 6 mod 64) (?n mod 64) = ?n"
    by (rule quantum_groups)
  moreover have "(char_of (((of_char a :: nat) * 65536 + of_char b * 256 + of_char c) div 65536) :: char)
          = char_of (of_char a :: nat)"
    and "(char_of (((of_char a :: nat) * 65536 + of_char b * 256 + of_char c) div 256) :: char)
          = char_of (of_char b :: nat)"
    and "(char_of ((of_char a :: nat) * 65536 + of_char b * 256 + of_char c) :: char)
          = char_of (of_char c :: nat)"
    by (rule char_of_three_bytes; simp add: of_char_less_256)+
  ultimately show ?case
    using "4.IH" by (simp add: Let_def)
qed

lemma decodeMap_encodeURL: "v < 64 \<Longrightarrow> decodeMap (encodeURL v) = Some v"
  by (simp add: decodeMap_def encodeURL_def Let_def) arith

lemma sextets_encodeURL: "list_all (\<lambda>v. v < 64) vs \<Longrightarrow> sextets (map encodeURL vs) = Some vs"
  by (induction vs) (simp_all add: decodeMap_encodeURL)

lemma first_group_bound: "((of_char a :: nat) * 65536 + B * 256 + C) div 262144 < 64"
  if "B < 256" and "C < 256" for B C :: nat
proof -
  have "(of_char a :: nat) * 65536 + B * 256 + C < 64 * 262144"
    using of_char_less_256 [of a] that by linarith
  then show ?thesis
    by (simp only: less_mult_imp_div_less)
qed

lemma groups_bound: "list_all (\<lambda>v. v < 64) (groups src)"
proof (induction src rule: groups.induct)
  case 1
  then show ?case by simp
next
  case (2 a)
  show ?case
    using first_group_bound [of 0 0 a] by (simp add: Let_def)
next
  case (3 a b)
  show ?case
    using first_group_bound [of "of_char b" 0 a] of_char_less_256 [of b] by (simp add: Let_def)
next
  case (4 a b c rest)
  show ?case
    using first_group_bound [of "of_char b" "of_char c" a] of_char_less_256 [of b]
      of_char_less_256 [of c] "4.IH"
    by (simp add: Let_def)
qed

lemma Decode_Encode: "DecodeString (EncodeToString src) = Some src"
  by (simp add: DecodeString_def EncodeToString_def sextets_encodeURL groups_bound quanta_groups)

lemma encoded_chars: "c \<in> set (EncodeToString src) \<Longrightarrow> decodeMap c \<noteq> None"
proof -
  assume "c \<in> set (EncodeToString src)"
  then obtain v where v: "v \<in> set (groups src)" and c: "c = encodeURL v"
    by (auto simp: EncodeToString_def)
  have "v < 64"
    using groups_bound [of src] v by (simp add: list_all_iff)
  then show ?thesis
    by (simp add: c decodeMap_encodeURL)
qed

lemma not_in_alphabet:
  "decodeMap CHR ''+'' = None" "decodeMap CHR ''/'' = None" "decodeMap CHR ''='' = None"
  by (simp_all add: decodeMap_def)

lemma Replace_id: "old \<notin> set s \<Longrightarrow> Replace s old new = s"
  by (induction s) (auto simp: Replace_def)

lemma TrimRight_id:
  assumes "c \<notin> set s"
  shows "TrimRight s c = s"
proof (cases "rev s")
  case Nil
  then show ?thesis
    by (simp add: TrimRight_def)
next
  case (Cons x xs)
  have "x \<in> set (rev s)"
    unfolding Cons by simp
  then have "x \<noteq> c"
    using assms by auto
  then have "rev (dropWhile (\<lambda>x. x = c) (rev s)) = rev (rev s)"
    unfolding Cons by simp
  then show ?thesis
    by (simp add: TrimRight_def)
qed

lemma normal_encoded:
  "TrimRight (Replace (Replace (EncodeToString src) CHR ''+'' CHR ''-'') CHR ''/'' CHR ''_'') CHR ''=''
     = EncodeToString src"
proof -
  have "CHR ''+'' \<notin> set (EncodeToString src)" and "CHR ''/'' \<notin> set (EncodeToString src)"
    and "CHR ''='' \<notin> set (EncodeToString src)"
    using encoded_chars [of _ src] not_in_alphabet by blast+
  then show ?thesis
    by (simp add: Replace_id TrimRight_id)
qed

lemma Replace_append: "Replace (xs @ ys) a b = Replace xs a b @ Replace ys a b"
  by (simp add: Replace_def)

lemma Replace_padding: "a \<noteq> CHR ''='' \<Longrightarrow> Replace (replicate n CHR ''='') a b = replicate n CHR ''=''"
  by (simp add: Replace_def)

lemma dropWhile_replicate:
  "dropWhile (\<lambda>x. x = c) (replicate n c @ ys) = dropWhile (\<lambda>x. x = c) ys"
  by (induction n) simp_all

lemma TrimRight_padding: "TrimRight (xs @ replicate n c) c = TrimRight xs c"
  by (simp add: TrimRight_def dropWhile_replicate)

lemma Replace_alphabet:
  "Replace (Replace (Replace (Replace s CHR ''-'' CHR ''+'') CHR ''_'' CHR ''/'') CHR ''+'' CHR ''-'')
      CHR ''/'' CHR ''_''
   = Replace (Replace s CHR ''+'' CHR ''-'') CHR ''/'' CHR ''_''"
  by (induction s) (simp_all add: Replace_def)

lemma NewVerifier_cases:
  "NewVerifier publicKey =
     (case DecodeString (TrimRight (Replace (Replace publicKey CHR ''+'' CHR ''-'')
                                      CHR ''/'' CHR ''_'') CHR ''='') of
        None \<Rightarrow> Inl ErrInvalidPublicKey
      | Some key \<Rightarrow>
          if length key = PublicKeySize then Inr \<lparr>pk = key\<rparr> else Inl ErrInvalidPublicKey)"
  by (simp add: NewVerifier_def base64_NewFromString_def Let_def split: option.splits)

text \<open>
  Claim C9.  \<open>NewVerifier\<close> replaces every plus sign by a hyphen and every slash by an
  underscore, strips the equals signs at the end, and decodes the result as unpadded
  URL-safe base64.  It returns a verifier holding the decoded key exactly when the
  decoding succeeds and gives 32 bytes, and the error \<open>ErrInvalidPublicKey\<close> otherwise;
  so the key of every verifier it returns has 32 bytes.  A text in the standard alphabet
  and a text followed by padding give the same result as the URL-safe, unpadded text; and
  for every key of 32 bytes its encoding in either alphabet, with padding or without, is
  accepted and gives that key.
\<close>

theorem NewVerifier_lenient:
  "NewVerifier publicKey =
     (case DecodeString (TrimRight (Replace (Replace publicKey CHR ''+'' CHR ''-'')
                                      CHR ''/'' CHR ''_'') CHR ''='') of
        None \<Rightarrow> Inl ErrInvalidPublicKey
      | Some key \<Rightarrow>
          if length key = PublicKeySize then Inr \<lparr>pk = key\<rparr> else Inl ErrInvalidPublicKey)
   \<and> (\<forall>v. NewVerifier publicKey = Inr v \<longrightarrow> length (pk v) = PublicKeySize)
   \<and> NewVerifier (publicKey @ replicate n CHR ''='') = NewVerifier publicKey
   \<and> NewVerifier (Replace (Replace publicKey CHR ''-'' CHR ''+'') CHR ''_'' CHR ''/'')
       = NewVerifier publicKey
   \<and> (length key = PublicKeySize \<longrightarrow>
        NewVerifier (EncodeToString key @ replicate n CHR ''='') = Inr \<lparr>pk = key\<rparr>
        \<and> NewVerifier (Replace (Replace (EncodeToString key) CHR ''-'' CHR ''+'') CHR ''_'' CHR ''/''
                         @ replicate n CHR ''='') = Inr \<lparr>pk = key\<rparr>)"
proof (intro conjI allI impI)
  show "NewVerifier publicKey =
     (case DecodeString (TrimRight (Replace (Replace publicKey CHR ''+'' CHR ''-'')
                                      CHR ''/'' CHR ''_'') CHR ''='') of
        None \<Rightarrow> Inl ErrInvalidPublicKey
      | Some key \<Rightarrow>
          if length key = PublicKeySize then Inr \<lparr>pk = key\<rparr> else Inl ErrInvalidPublicKey)"
    by (rule NewVerifier_cases)
next
  fix v
  assume "NewVerifier publicKey = Inr v"
  then show "length (pk v) = PublicKeySize"
    by (auto simp: NewVerifier_cases split: option.splits if_splits)
next
  show "NewVerifier (publicKey @ replicate n CHR ''='') = NewVerifier publicKey"
    by (simp add: NewVerifier_cases Replace_append Replace_padding TrimRight_padding)
next
  show "NewVerifier (Replace (Replace publicKey CHR ''-'' CHR ''+'') CHR ''_'' CHR ''/'')
       = NewVerifier publicKey"
    by (simp add: NewVerifier_cases Replace_alphabet)
next
  assume len: "length key = PublicKeySize"
  have plain: "NewVerifier (EncodeToString key) = Inr \<lparr>pk = key\<rparr>"
    by (simp add: NewVerifier_cases normal_encoded Decode_Encode len)
  show "NewVerifier (EncodeToString key @ replicate n CHR ''='') = Inr \<lparr>pk = key\<rparr>"
    by (simp add: NewVerifier_cases Replace_append Replace_padding TrimRight_padding
        normal_encoded Decode_Encode len)
  show "NewVerifier (Replace (Replace (EncodeToString key) CHR ''-'' CHR ''+'') CHR ''_'' CHR ''/''
                         @ replicate n CHR ''='') = Inr \<lparr>pk = key\<rparr>"
    by (simp add: NewVerifier_cases Replace_append Replace_padding TrimRight_padding
        Replace_alphabet normal_encoded Decode_Encode len)
qed

lemma NewVerifier_ManifoldKey_length:
  "(case NewVerifier ManifoldKey of Inl err \<Rightarrow> 0 | Inr v \<Rightarrow> length (pk v)) = 32"
  by (simp add: NewVerifier_def ManifoldKey_def Replace_def TrimRight_def base64_NewFromString_def
      DecodeString_def decodeMap_def PublicKeySize_def)

lemma example_key_standard:
  "Replace (Replace ''PY7wu3q3-adYr9-0ES6CMRixup9OjO5iL7EFDFpolhk'' CHR ''-'' CHR ''+'') CHR ''_'' CHR ''/''
     @ replicate 1 CHR ''=''
   = ''PY7wu3q3+adYr9+0ES6CMRixup9OjO5iL7EFDFpolhk=''"
  by (simp add: Replace_def)

theorem NewVerifier_lenient_witness:
  "NewVerifier ''PY7wu3q3+adYr9+0ES6CMRixup9OjO5iL7EFDFpolhk=''
     = NewVerifier ''PY7wu3q3-adYr9-0ES6CMRixup9OjO5iL7EFDFpolhk''
   \<and> (case NewVerifier ManifoldKey of Inl err \<Rightarrow> 0 | Inr v \<Rightarrow> length (pk v)) = PublicKeySize
   \<and> NewVerifier (EncodeToString key_a @ ''='') = Inr \<lparr>pk = key_a\<rparr>
   \<and> NewVerifier ''AAAA'' = Inl ErrInvalidPublicKey
   \<and> NewVerifier ''!'' = Inl ErrInvalidPublicKey"
proof -
  have variants: "NewVerifier ''PY7wu3q3+adYr9+0ES6CMRixup9OjO5iL7EFDFpolhk=''
     = NewVerifier ''PY7wu3q3-adYr9-0ES6CMRixup9OjO5iL7EFDFpolhk''"
    using NewVerifier_lenient [of "Replace (Replace ''PY7wu3q3-adYr9-0ES6CMRixup9OjO5iL7EFDFpolhk'' CHR ''-'' CHR ''+'') CHR ''_'' CHR ''/''" 1]
      NewVerifier_lenient [of "''PY7wu3q3-adYr9-0ES6CMRixup9OjO5iL7EFDFpolhk''" 0]
    unfolding example_key_standard by simp
  have encoded: "NewVerifier (EncodeToString key_a @ ''='') = Inr \<lparr>pk = key_a\<rparr>"
    using NewVerifier_lenient [of "[]" 1 key_a] length_key_a by simp
  have short: "NewVerifier ''AAAA'' = Inl ErrInvalidPublicKey"
    using NewVerifier_lenient [of "''AAAA''" 0]
    by (simp add: Replace_def TrimRight_def DecodeString_def decodeMap_def quantum_def
        PublicKeySize_def)
  have corrupt: "NewVerifier ''!'' = Inl ErrInvalidPublicKey"
    using NewVerifier_lenient [of "''!''" 0]
    by (simp add: Replace_def TrimRight_def DecodeString_def decodeMap_def)
  show ?thesis
    using variants encoded short corrupt NewVerifier_ManifoldKey_length
    by (simp add: PublicKeySize_def)
qed

section \<open>The checks of the verifier\<close>

lemma Verify_checks_passed:
  assumes "Header_Get (Header req) ''X-Signature'' \<noteq> []"
    and "ParseSignature (Header_Get (Header req) ''X-Signature'') = Inr sg"
    and "Header_Get (Header req) ''X-Signed-Headers'' \<noteq> []"
    and "parse_RFC3339 env (Header_Get (Header req) ''Date'') = Some rt"
  shows "Verify env v req body =
     (if sint (if sint (timeSince env rt) < 0 then - timeSince env rt else timeSince env rt)
           > sint PermittedTimeSkew
      then Return (Some (Err (Error 400 ''Request time skew is too great'')))
      else (case Canonize (unicode_ToLower env) req body of
              (b, Some err) \<Rightarrow> Return (Some (Err (Error 400 ''Unable to read request body'')))
            | (b, None) \<Rightarrow> Validate (ed25519_valid env) sg (pk v) b))"
  using assms by (simp add: Verify_def Let_def)

lemma canonical_X_Signature: "CanonicalHeaderKey ''X-Signature'' = ''X-Signature''"
  by code_simp

text \<open>
  Claim C5.  \<open>Verify\<close> checks in a fixed order and returns the first failure: an absent
  or empty X-Signature header gives the 400 error "Missing X-Signature header"; else a
  signature header that does not parse gives the 400 error "Could not parse X-Signature
  header"; else an absent or empty X-Signed-Headers header gives the 400 error "Missing
  X-Signed-Headers header"; else a Date header that does not parse gives the 400 error
  "Unable to read request date".  In these four cases the result does not depend on the
  clock, the body, the key or the signature scheme.  Only when all four checks pass does
  the result come from the skew check, the canonical form and the validation of the
  chain, in that order.
\<close>

theorem Verify_fail_fast:
  "(Header req ''X-Signature'' = None \<longrightarrow> Header_Get (Header req) ''X-Signature'' = [])
   \<and> (Header_Get (Header req) ''X-Signature'' = [] \<longrightarrow>
        Verify env v req body = Return (Some (Err (Error 400 ''Missing X-Signature header''))))
   \<and> (Header_Get (Header req) ''X-Signature'' \<noteq> []
        \<and> ParseSignature (Header_Get (Header req) ''X-Signature'') = Inl e \<longrightarrow>
        Verify env v req body =
          Return (Some (Err (Error 400 ''Could not parse X-Signature header''))))
   \<and> (Header_Get (Header req) ''X-Signature'' \<noteq> []
        \<and> ParseSignature (Header_Get (Header req) ''X-Signature'') = Inr sg
        \<and> Header_Get (Header req) ''X-Signed-Headers'' = [] \<longrightarrow>
        Verify env v req body =
          Return (Some (Err (Error 400 ''Missing X-Signed-Headers header''))))
   \<and> (Header_Get (Header req) ''X-Signature'' \<noteq> []
        \<and> ParseSignature (Header_Get (Header req) ''X-Signature'') = Inr sg
        \<and> Header_Get (Header req) ''X-Signed-Headers'' \<noteq> []
        \<and> parse_RFC3339 env (Header_Get (Header req) ''Date'') = None \<longrightarrow>
        Verify env v req body = Return (Some (Err (Error 400 ''Unable to read request date''))))
   \<and> (Header_Get (Header req) ''X-Signature'' \<noteq> []
        \<and> ParseSignature (Header_Get (Header req) ''X-Signature'') = Inr sg
        \<and> Header_Get (Header req) ''X-Signed-Headers'' \<noteq> []
        \<and> parse_RFC3339 env (Header_Get (Header req) ''Date'') = Some rt \<longrightarrow>
        Verify env v req body =
          (if sint (if sint (timeSince env rt) < 0 then - timeSince env rt else timeSince env rt)
                > sint PermittedTimeSkew
           then Return (Some (Err (Error 400 ''Request time skew is too great'')))
           else (case Canonize (unicode_ToLower env) req body of
                   (b, Some err) \<Rightarrow>
                     Return (Some (Err (Error 400 ''Unable to read request body'')))
                 | (b, None) \<Rightarrow> Validate (ed25519_valid env) sg (pk v) b)))"
proof (intro conjI impI)
  assume "Header req ''X-Signature'' = None"
  then show "Header_Get (Header req) ''X-Signature'' = []"
    by (simp add: Header_Get_def Header_index_def canonical_X_Signature)
next
  assume "Header_Get (Header req) ''X-Signature'' = []"
  then show "Verify env v req body = Return (Some (Err (Error 400 ''Missing X-Signature header'')))"
    by (simp add: Verify_def)
next
  assume "Header_Get (Header req) ''X-Signature'' \<noteq> []
        \<and> ParseSignature (Header_Get (Header req) ''X-Signature'') = Inl e"
  then show "Verify env v req body =
          Return (Some (Err (Error 400 ''Could not parse X-Signature header'')))"
    by (simp add: Verify_def)
next
  assume "Header_Get (Header req) ''X-Signature'' \<noteq> []
        \<and> ParseSignature (Header_Get (Header req) ''X-Signature'') = Inr sg
        \<and> Header_Get (Header req) ''X-Signed-Headers'' = []"
  then show "Verify env v req body =
          Return (Some (Err (Error 400 ''Missing X-Signed-Headers header'')))"
    by (simp add: Verify_def)
next
  assume "Header_Get (Header req) ''X-Signature'' \<noteq> []
        \<and> ParseSignature (Header_Get (Header req) ''X-Signature'') = Inr sg
        \<and> Header_Get (Header req) ''X-Signed-Headers'' \<noteq> []
        \<and> parse_RFC3339 env (Header_Get (Header req) ''Date'') = None"
  then show "Verify env v req body = Return (Some (Err (Error 400 ''Unable to read request date'')))"
    by (simp add: Verify_def)
next
  assume "Header_Get (Header req) ''X-Signature'' \<noteq> []
        \<and> ParseSignature (Header_Get (Header req) ''X-Signature'') = Inr sg
        \<and> Header_Get (Header req) ''X-Signed-Headers'' \<noteq> []
        \<and> parse_RFC3339 env (Header_Get (Header req) ''Date'') = Some rt"
  then show "Verify env v req body =
          (if sint (if sint (timeSince env rt) < 0 then - timeSince env rt else timeSince env rt)
                > sint PermittedTimeSkew
           then Return (Some (Err (Error 400 ''Request time skew is too great'')))
           else (case Canonize (unicode_ToLower env) req body of
                   (b, Some err) \<Rightarrow>
                     Return (Some (Err (Error 400 ''Unable to read request body'')))
                 | (b, None) \<Rightarrow> Validate (ed25519_valid env) sg (pk v) b))"
    by (simp add: Verify_checks_passed)
qed

lemma Get_X_Signature: "Header_Get (Header (signed_request d s)) ''X-Signature'' = s"
  by (simp add: signed_request_def Header_Get_def Header_Set_def Header_index_def
      CanonicalHeaderKey_def validHeaderFieldByte_def is_upper_def is_lower_def Let_def
      upper_char_def lower_char_def char_of_def)

lemma Get_X_Signed_Headers:
  "Header_Get (Header (signed_request d s)) ''X-Signed-Headers'' = ''date''"
  by (simp add: signed_request_def Header_Get_def Header_Set_def Header_index_def
      CanonicalHeaderKey_def validHeaderFieldByte_def is_upper_def is_lower_def Let_def
      upper_char_def lower_char_def char_of_def)

lemma Get_Date: "Header_Get (Header (signed_request d s)) ''Date'' = d"
  by (simp add: signed_request_def Header_Get_def Header_Set_def Header_index_def
      CanonicalHeaderKey_def validHeaderFieldByte_def is_upper_def is_lower_def Let_def
      upper_char_def lower_char_def char_of_def)

lemma Parse_signature_2017: "ParseSignature signature_2017 = Inr (example_chain canonical_2017)"
  by (simp add: ParseSignature_def signature_2017_def base64_NewFromString_def DecodeString_def
      decodeMap_def quantum_def char_of_def bit_Suc_0_iff example_chain_def canonical_2017_def
      key_a_def key_b_def newline_def)

lemma Parse_signature_2400: "ParseSignature signature_2400 = Inr (example_chain canonical_2400)"
  by (simp add: ParseSignature_def signature_2400_def base64_NewFromString_def DecodeString_def
      decodeMap_def quantum_def char_of_def bit_Suc_0_iff example_chain_def canonical_2400_def
      key_a_def key_b_def newline_def)

lemma Canonize_2017:
  "Canonize u (signed_request ''2017-03-05T23:53:08Z'' s) (Reader ''Test body data'' None)
     = (canonical_2017, None)"
  by code_simp

lemma Canonize_2400:
  "Canonize u (signed_request ''2400-01-01T00:00:00Z'' s) (Reader ''Test body data'' None)
     = (canonical_2400, None)"
  by code_simp

lemma Validate_example_chain: "Validate example_scheme (example_chain b) key_a b = Return None"
  by (simp add: Validate_cases ed25519_Verify_def example_chain_def length_key_a length_key_b
      example_scheme_def)

lemma example_env_simps:
  "ed25519_valid (example_env n) = example_scheme"
  "parse_RFC3339 (example_env n) = example_parse"
  "timeSince (example_env n) = time_Since n"
  by (simp_all add: example_env_def)

lemma example_parse_2017: "example_parse ''2017-03-05T23:53:08Z'' = Some 1488757988000000000"
  by (simp add: example_parse_def)

lemma example_parse_2400: "example_parse ''2400-01-01T00:00:00Z'' = Some 13569465600000000000"
  by (simp add: example_parse_def)

lemma signature_2017_not_empty: "signature_2017 \<noteq> []"
  by (simp add: signature_2017_def)

lemma signature_2400_not_empty: "signature_2400 \<noteq> []"
  by (simp add: signature_2400_def)

lemma sint_PermittedTimeSkew: "sint PermittedTimeSkew = 300000000000"
  by (simp add: PermittedTimeSkew_def Minute_def Second_def Millisecond_def Microsecond_def
      Nanosecond_def)

lemma sint_time_Since:
  assumes "minDuration \<le> now - rt" and "now - rt \<le> maxDuration"
  shows "sint (time_Since now rt) = now - rt"
proof -
  define k where "k = now - rt"
  have "sint (word_of_int k :: Duration) = k"
    using assms unfolding k_def [symmetric] minDuration_def maxDuration_def
    by (simp add: sint_sbintrunc' signed_take_bit_int_eq_self)
  moreover have "time_Since now rt = word_of_int k"
    using assms unfolding time_Since_def Sub_def k_def [symmetric] by simp
  ultimately show ?thesis
    by (simp only: k_def)
qed

lemma time_Since_saturates_min:
  "now - rt \<le> minDuration \<Longrightarrow> time_Since now rt = word_of_int minDuration"
  by (cases "now - rt = minDuration") (simp_all add: time_Since_def Sub_def minDuration_def maxDuration_def)

lemma sint_minDuration: "sint (word_of_int minDuration :: Duration) = - (2 ^ 63)"
  by (simp add: minDuration_def sint_sbintrunc' signed_take_bit_int_eq_self)

lemma neg_minDuration: "- (word_of_int minDuration :: Duration) = word_of_int minDuration"
  by (simp add: minDuration_def)

lemma sint_neg_Duration:
  fixes d :: Duration
  assumes "d \<noteq> word_of_int minDuration"
  shows "sint (- d) = - sint d"
proof -
  have lo: "- (2 ^ 63) \<le> sint d" and hi: "sint d < 2 ^ 63"
    using sint_ge [of d] sint_lt [of d] by simp_all
  have "sint d \<noteq> - (2 ^ 63)"
  proof
    assume "sint d = - (2 ^ 63)"
    then have "word_of_int (sint d) = (word_of_int (- (2 ^ 63)) :: Duration)"
      by simp
    then show False
      using assms by (simp add: minDuration_def)
  qed
  with lo hi show ?thesis
    by (simp add: sint_word_minus signed_take_bit_int_eq_self)
qed

lemma sint_abs_Duration:
  fixes d :: Duration
  assumes "d \<noteq> word_of_int minDuration"
  shows "sint (if sint d < 0 then - d else d) = \<bar>sint d\<bar>"
  using sint_neg_Duration [OF assms] by simp

lemma Validate_not_skew:
  "Validate valid sg k b \<noteq> Return (Some (Err (Error 400 ''Request time skew is too great'')))"
  by (simp add: Validate_cases split: result.splits bool.splits)

lemma Verify_skew_check:
  assumes "Header_Get (Header req) ''X-Signature'' \<noteq> []"
    and "ParseSignature (Header_Get (Header req) ''X-Signature'') = Inr sg"
    and "Header_Get (Header req) ''X-Signed-Headers'' \<noteq> []"
    and "parse_RFC3339 env (Header_Get (Header req) ''Date'') = Some rt"
  shows "(timeSince env rt \<noteq> word_of_int minDuration \<longrightarrow>
           (Verify env v req body = Return (Some (Err (Error 400 ''Request time skew is too great'')))
            \<longleftrightarrow> \<bar>sint (timeSince env rt)\<bar> > 300000000000))
       \<and> (timeSince env rt = word_of_int minDuration \<longrightarrow>
           Verify env v req body \<noteq> Return (Some (Err (Error 400 ''Request time skew is too great''))))"
proof (intro conjI impI)
  assume ne: "timeSince env rt \<noteq> word_of_int minDuration"
  show "Verify env v req body = Return (Some (Err (Error 400 ''Request time skew is too great'')))
            \<longleftrightarrow> \<bar>sint (timeSince env rt)\<bar> > 300000000000"
    unfolding Verify_checks_passed [OF assms] sint_abs_Duration [OF ne] sint_PermittedTimeSkew
    by (auto simp: Validate_not_skew split: prod.splits option.splits)
next
  assume eq: "timeSince env rt = word_of_int minDuration"
  show "Verify env v req body \<noteq> Return (Some (Err (Error 400 ''Request time skew is too great'')))"
    unfolding Verify_checks_passed [OF assms] eq sint_PermittedTimeSkew
    by (auto simp: sint_minDuration neg_minDuration Validate_not_skew split: prod.splits option.splits)
qed

text \<open>
  Claim C6, the default clock: \<^verbatim>\<open>time.Since\<close> of a date that lies 2^63 nanoseconds
  (about 292 years) or more after the clock reading is the minimum duration, whose
  negation is itself, so the skew check lets the request pass.  Here the clock reads
  2026-11-03 and the request, signed in the stand-in scheme, is dated 2400-01-01; it is
  accepted.
\<close>

theorem Verify_far_future_date_accepted:
  "Verify (example_env 1793664000000000000) example_verifier
     (signed_request ''2400-01-01T00:00:00Z'' signature_2400) (Reader ''Test body data'' None)
   = Return None"
proof -
  have since: "time_Since 1793664000000000000 13569465600000000000 = word_of_int minDuration"
    by (rule time_Since_saturates_min) (simp add: minDuration_def)
  show ?thesis
    by (subst Verify_checks_passed [where sg = "example_chain canonical_2400"
          and rt = 13569465600000000000])
       (simp_all add: Get_X_Signature Get_X_Signed_Headers Get_Date Parse_signature_2400
          signature_2400_not_empty example_env_simps example_parse_2400 since sint_minDuration
          neg_minDuration sint_PermittedTimeSkew Canonize_2400 Validate_example_chain
          example_verifier_def)
qed

text \<open>
  The skew check on either side of the threshold, for the request dated
  2017-03-05T23:53:08Z: a clock exactly five minutes later accepts it, a clock one
  nanosecond beyond that, or more than five minutes before the date, refuses it.
\<close>

lemma Verify_skew_boundary:
  "Verify (example_env 1488758288000000000) example_verifier
     (signed_request ''2017-03-05T23:53:08Z'' signature_2017) (Reader ''Test body data'' None)
   = Return None
   \<and> Verify (example_env 1488758288000000001) example_verifier
     (signed_request ''2017-03-05T23:53:08Z'' signature_2017) (Reader ''Test body data'' None)
   = Return (Some (Err (Error 400 ''Request time skew is too great'')))
   \<and> Verify (example_env 1488757687999999999) example_verifier
     (signed_request ''2017-03-05T23:53:08Z'' signature_2017) (Reader ''Test body data'' None)
   = Return (Some (Err (Error 400 ''Request time skew is too great'')))"
proof -
  have s1: "sint (time_Since 1488758288000000000 1488757988000000000) = 300000000000"
    by (subst sint_time_Since) (simp_all add: minDuration_def maxDuration_def)
  have s2: "sint (time_Since 1488758288000000001 1488757988000000000) = 300000000001"
    by (subst sint_time_Since) (simp_all add: minDuration_def maxDuration_def)
  have s3: "sint (time_Since 1488757687999999999 1488757988000000000) = - 300000000001"
    by (subst sint_time_Since) (simp_all add: minDuration_def maxDuration_def)
  have n3: "sint (- time_Since 1488757687999999999 1488757988000000000) = 300000000001"
    by (subst sint_neg_Duration) (use s3 sint_minDuration in auto)
  have v1: "Verify (example_env 1488758288000000000) example_verifier
     (signed_request ''2017-03-05T23:53:08Z'' signature_2017) (Reader ''Test body data'' None)
   = Return None"
    by (subst Verify_checks_passed [where sg = "example_chain canonical_2017"
          and rt = 1488757988000000000])
       (simp_all add: Get_X_Signature Get_X_Signed_Headers Get_Date Parse_signature_2017
          signature_2017_not_empty example_env_simps example_parse_2017 s1
          sint_PermittedTimeSkew Canonize_2017 Validate_example_chain example_verifier_def)
  have v2: "Verify (example_env 1488758288000000001) example_verifier
     (signed_request ''2017-03-05T23:53:08Z'' signature_2017) (Reader ''Test body data'' None)
   = Return (Some (Err (Error 400 ''Request time skew is too great'')))"
    by (subst Verify_checks_passed [where sg = "example_chain canonical_2017"
          and rt = 1488757988000000000])
       (simp_all add: Get_X_Signature Get_X_Signed_Headers Get_Date Parse_signature_2017
          signature_2017_not_empty example_env_simps example_parse_2017 s2
          sint_PermittedTimeSkew)
  have v3: "Verify (example_env 1488757687999999999) example_verifier
     (signed_request ''2017-03-05T23:53:08Z'' signature_2017) (Reader ''Test body data'' None)
   = Return (Some (Err (Error 400 ''Request time skew is too great'')))"
    by (subst Verify_checks_passed [where sg = "example_chain canonical_2017"
          and rt = 1488757988000000000])
       (simp_all add: Get_X_Signature Get_X_Signed_Headers Get_Date Parse_signature_2017
          signature_2017_not_empty example_env_simps example_parse_2017 s3 n3
          sint_PermittedTimeSkew)
  show ?thesis
    using v1 v2 v3 by simp
qed

text \<open>
  The skew check, for a request that passed the four checks on its headers: unless
  \<^verbatim>\<open>timeSince\<close> returns the minimum duration, the request is refused with "Request
  time skew is too great" exactly when the absolute value of the duration is more than
  300000000000 nanoseconds; at the minimum duration it is not refused.
\<close>

theorem Verify_skew_absolute:
  assumes "Header_Get (Header req) ''X-Signature'' \<noteq> []"
    and "ParseSignature (Header_Get (Header req) ''X-Signature'') = Inr sg"
    and "Header_Get (Header req) ''X-Signed-Headers'' \<noteq> []"
    and "parse_RFC3339 env (Header_Get (Header req) ''Date'') = Some rt"
  shows "(timeSince env rt \<noteq> word_of_int minDuration \<longrightarrow>
           (Verify env v req body = Return (Some (Err (Error 400 ''Request time skew is too great'')))
            \<longleftrightarrow> \<bar>sint (timeSince env rt)\<bar> > 300000000000))
       \<and> (timeSince env rt = word_of_int minDuration \<longrightarrow>
           Verify env v req body \<noteq> Return (Some (Err (Error 400 ''Request time skew is too great''))))"
  by (rule Verify_skew_check [OF assms])

theorem Verify_skew_absolute_witness:
  "Verify (example_env 1488757687999999999) example_verifier
     (signed_request ''2017-03-05T23:53:08Z'' signature_2017) (Reader ''Test body data'' None)
   = Return (Some (Err (Error 400 ''Request time skew is too great'')))
   \<and> Verify (example_env 1488758288000000000) example_verifier
     (signed_request ''2017-03-05T23:53:08Z'' signature_2017) (Reader ''Test body data'' None)
   \<noteq> Return (Some (Err (Error 400 ''Request time skew is too great'')))"
proof -
  let ?req = "signed_request ''2017-03-05T23:53:08Z'' signature_2017"
  have sig: "Header_Get (Header ?req) ''X-Signature'' \<noteq> []"
    by (simp add: Get_X_Signature signature_2017_not_empty)
  have parsed: "ParseSignature (Header_Get (Header ?req) ''X-Signature'')
                  = Inr (example_chain canonical_2017)"
    by (simp add: Get_X_Signature Parse_signature_2017)
  have list: "Header_Get (Header ?req) ''X-Signed-Headers'' \<noteq> []"
    by (simp add: Get_X_Signed_Headers)
  have date: "parse_RFC3339 (example_env n) (Header_Get (Header ?req) ''Date'')
                = Some 1488757988000000000" for n
    by (simp add: Get_Date example_env_simps example_parse_2017)
  have early: "sint (time_Since 1488757687999999999 1488757988000000000) = - 300000000001"
    by (subst sint_time_Since) (simp_all add: minDuration_def maxDuration_def)
  have late: "sint (time_Since 1488758288000000000 1488757988000000000) = 300000000000"
    by (subst sint_time_Since) (simp_all add: minDuration_def maxDuration_def)
  have not_min: "time_Since 1488757687999999999 1488757988000000000 \<noteq> word_of_int minDuration"
    "time_Since 1488758288000000000 1488757988000000000 \<noteq> word_of_int minDuration"
    using early late sint_minDuration by auto
  show ?thesis
    using Verify_skew_absolute [OF sig parsed list date, of 1488757687999999999 example_verifier
        "Reader ''Test body data'' None"]
      Verify_skew_absolute [OF sig parsed list date, of 1488758288000000000 example_verifier
        "Reader ''Test body data'' None"]
    by (simp add: example_env_simps not_min early late)
qed

lemma Parse_two_tokens:
  "ParseSignature ''AA AA'' = Inl (Err (Error 400 ''Could not parse Signature chain''))"
  by (simp add: ParseSignature_def)

lemma Parse_three_tokens:
  "ParseSignature ''AA AA AA'' =
     Inr \<lparr>Value = [CHR 0x00], PublicKey = [CHR 0x00], Endorsement = [CHR 0x00]\<rparr>"
  by (simp add: ParseSignature_def base64_NewFromString_def DecodeString_def decodeMap_def
      quantum_def char_of_def)

lemma Get_only_X_Signature:
  "Header_Get (Header_Set Map.empty ''X-Signature'' s) ''X-Signature'' = s
   \<and> Header_Get (Header_Set Map.empty ''X-Signature'' s) ''X-Signed-Headers'' = []"
  by (simp add: Header_Get_def Header_Set_def Header_index_def
      CanonicalHeaderKey_def validHeaderFieldByte_def is_upper_def is_lower_def Let_def
      upper_char_def lower_char_def char_of_def)

lemma example_parse_yesterday: "example_parse ''yesterday'' = None"
  by (simp add: example_parse_def)

theorem Verify_fail_fast_witness:
  "Verify (example_env 1488758288000000000) example_verifier
     (signed_request ''2017-03-05T23:53:08Z'' []) (Reader ''Test body data'' None)
     = Return (Some (Err (Error 400 ''Missing X-Signature header'')))
   \<and> Verify (example_env 1488758288000000000) example_verifier
     (signed_request ''2017-03-05T23:53:08Z'' ''AA AA'') (Reader ''Test body data'' None)
     = Return (Some (Err (Error 400 ''Could not parse X-Signature header'')))
   \<and> Verify (example_env 1488758288000000000) example_verifier
     ((signed_request ''2017-03-05T23:53:08Z'' [])
        \<lparr>Header := Header_Set Map.empty ''X-Signature'' ''AA AA AA''\<rparr>)
     (Reader ''Test body data'' None)
     = Return (Some (Err (Error 400 ''Missing X-Signed-Headers header'')))
   \<and> Verify (example_env 1488758288000000000) example_verifier
     (signed_request ''yesterday'' ''AA AA AA'') (Reader ''Test body data'' None)
     = Return (Some (Err (Error 400 ''Unable to read request date'')))
   \<and> Verify (example_env 1488758288000000000) example_verifier
     (signed_request ''2017-03-05T23:53:08Z'' signature_2017) (Reader ''Test body data'' None)
     = Return None"
proof -
  let ?env = "example_env 1488758288000000000"
  let ?body = "Reader ''Test body data'' None"
  have v1: "Verify ?env example_verifier (signed_request ''2017-03-05T23:53:08Z'' []) ?body
     = Return (Some (Err (Error 400 ''Missing X-Signature header'')))"
    using Verify_fail_fast [of "signed_request ''2017-03-05T23:53:08Z'' []" ?env example_verifier ?body]
    by (simp add: Get_X_Signature)
  have v2: "Verify ?env example_verifier (signed_request ''2017-03-05T23:53:08Z'' ''AA AA'') ?body
     = Return (Some (Err (Error 400 ''Could not parse X-Signature header'')))"
    using Verify_fail_fast [of "signed_request ''2017-03-05T23:53:08Z'' ''AA AA''" ?env
        example_verifier ?body "Err (Error 400 ''Could not parse Signature chain'')"]
    by (simp add: Get_X_Signature Parse_two_tokens)
  have v3: "Verify ?env example_verifier
     ((signed_request ''2017-03-05T23:53:08Z'' [])
        \<lparr>Header := Header_Set Map.empty ''X-Signature'' ''AA AA AA''\<rparr>) ?body
     = Return (Some (Err (Error 400 ''Missing X-Signed-Headers header'')))"
    using Verify_fail_fast [of "(signed_request ''2017-03-05T23:53:08Z'' [])
        \<lparr>Header := Header_Set Map.empty ''X-Signature'' ''AA AA AA''\<rparr>" ?env example_verifier ?body _
        "\<lparr>Value = [CHR 0x00], PublicKey = [CHR 0x00], Endorsement = [CHR 0x00]\<rparr>"]
    by (simp add: Get_only_X_Signature Parse_three_tokens)
  have v4: "Verify ?env example_verifier (signed_request ''yesterday'' ''AA AA AA'') ?body
     = Return (Some (Err (Error 400 ''Unable to read request date'')))"
    using Verify_fail_fast [of "signed_request ''yesterday'' ''AA AA AA''" ?env example_verifier
        ?body _ "\<lparr>Value = [CHR 0x00], PublicKey = [CHR 0x00], Endorsement = [CHR 0x00]\<rparr>"]
    by (simp add: Get_X_Signature Get_X_Signed_Headers Get_Date Parse_three_tokens
        example_env_simps example_parse_yesterday)
  have s1: "sint (time_Since 1488758288000000000 1488757988000000000) = 300000000000"
    by (subst sint_time_Since) (simp_all add: minDuration_def maxDuration_def)
  have v5: "Verify ?env example_verifier
     (signed_request ''2017-03-05T23:53:08Z'' signature_2017) ?body = Return None"
    using Verify_fail_fast [of "signed_request ''2017-03-05T23:53:08Z'' signature_2017" ?env
        example_verifier ?body _ "example_chain canonical_2017" 1488757988000000000]
    by (simp add: Get_X_Signature Get_X_Signed_Headers Get_Date Parse_signature_2017
        signature_2017_not_empty example_env_simps example_parse_2017 s1
        sint_PermittedTimeSkew Canonize_2017 Validate_example_chain example_verifier_def)
  show ?thesis
    using v1 v2 v3 v4 v5 by simp
qed

section \<open>The responses of the middleware\<close>

lemma json_char_plain:
  assumes "32 \<le> (of_char c :: nat)" and "c \<noteq> CHR 0x22" and "c \<noteq> CHR 0x5C"
    and "c \<noteq> CHR ''<''" and "c \<noteq> CHR ''>''" and "c \<noteq> CHR ''&''"
  shows "json_char c = [c]"
proof -
  have "c \<noteq> CHR 0x0A" and "c \<noteq> CHR 0x0D" and "c \<noteq> CHR 0x09"
    using assms(1) by fastforce+
  moreover have "\<not> (of_char c :: nat) < 32"
    using assms(1) by simp
  ultimately show ?thesis
    unfolding json_char_def using assms by simp
qed

lemma concat_json_char_plain: "json_plain msg \<Longrightarrow> concat (map json_char msg) = msg"
proof (induction msg)
  case Nil
  then show ?case by simp
next
  case (Cons c msg)
  have "json_char c = [c]"
    using Cons.prems by (intro json_char_plain) (simp_all add: json_plain_def)
  moreover have "json_plain msg"
    using Cons.prems by (simp add: json_plain_def)
  ultimately show ?case
    using Cons.IH by simp
qed

lemma json_string_plain: "json_plain msg \<Longrightarrow> json_string msg = [CHR 0x22] @ msg @ [CHR 0x22]"
  by (simp add: json_string_def concat_json_char_plain)

lemma json_plain_message: "json_plain ''message''"
  by (simp add: json_plain_def)

lemma json_Marshal_plain:
  "json_plain (Message e) \<Longrightarrow> json_Marshal e = Inr (spec_error_body (Message e))"
  by (simp add: json_Marshal_def json_string_plain json_plain_message spec_error_body_def)

lemma Respond_plain:
  "json_plain (Message e) \<Longrightarrow>
   Respond e rw = Return (rw @ spec_error_response (Code e) (Message e))"
  by (simp add: Respond_def json_Marshal_plain spec_error_response_def)

lemma Validate_error_plain:
  "Validate valid sg k b = Return (Some (Err e)) \<Longrightarrow> json_plain (Message e) \<and> Code e = 401"
  by (auto simp: Validate_cases json_plain_def split: result.splits bool.splits)

lemma Verify_outcome:
  "Verify env v req body = Return (Some (Err (Error 400 ''Missing X-Signature header'')))
   \<or> Verify env v req body = Return (Some (Err (Error 400 ''Could not parse X-Signature header'')))
   \<or> Verify env v req body = Return (Some (Err (Error 400 ''Missing X-Signed-Headers header'')))
   \<or> Verify env v req body = Return (Some (Err (Error 400 ''Unable to read request date'')))
   \<or> Verify env v req body = Return (Some (Err (Error 400 ''Request time skew is too great'')))
   \<or> Verify env v req body = Return (Some (Err (Error 400 ''Unable to read request body'')))
   \<or> (\<exists>sg b. Verify env v req body = Validate (ed25519_valid env) sg (pk v) b)"
proof (cases "Header_Get (Header req) ''X-Signature'' = []")
  case True
  then show ?thesis
    by (simp add: Verify_def)
next
  case sig: False
  show ?thesis
  proof (cases "ParseSignature (Header_Get (Header req) ''X-Signature'')")
    case (Inl err)
    with sig show ?thesis
      by (simp add: Verify_def)
  next
    case parsed: (Inr sg)
    show ?thesis
    proof (cases "Header_Get (Header req) ''X-Signed-Headers'' = []")
      case True
      with sig parsed show ?thesis
        by (simp add: Verify_def)
    next
      case list: False
      show ?thesis
      proof (cases "parse_RFC3339 env (Header_Get (Header req) ''Date'')")
        case None
        with sig parsed list show ?thesis
          by (simp add: Verify_def)
      next
        case (Some rt)
        obtain b err where canon: "Canonize (unicode_ToLower env) req body = (b, err)"
          by (cases "Canonize (unicode_ToLower env) req body")
        show ?thesis
          unfolding Verify_checks_passed [OF sig parsed list Some] canon
          by (cases err) auto
      qed
    qed
  qed
qed

lemma Validate_error_classified:
  "Validate valid sg k b = Return (Some err) \<Longrightarrow> \<exists>e. err = Err e"
  by (auto simp: Validate_cases split: result.splits bool.splits)

lemma plain_messages:
  "json_plain ''Missing X-Signature header''"
  "json_plain ''Could not parse X-Signature header''"
  "json_plain ''Missing X-Signed-Headers header''"
  "json_plain ''Unable to read request date''"
  "json_plain ''Request time skew is too great''"
  "json_plain ''Unable to read request body''"
  by (simp_all add: json_plain_def)

lemma Verify_error_plain:
  assumes "Verify env v req body = Return (Some (Err e))"
  shows "json_plain (Message e) \<and> (Code e = 400 \<or> Code e = 401)"
  using Verify_outcome [of env v req body] assms
  by (elim disjE exE) (auto simp: plain_messages dest: Validate_error_plain)

lemma Verify_error_classified:
  assumes "Verify env v req body = Return (Some err)"
  shows "\<exists>e. err = Err e"
  using Verify_outcome [of env v req body] assms
  by (elim disjE exE) (auto dest: Validate_error_classified)

lemma plain_generic: "json_plain ''Could not validate authenticity of the request''"
  by (simp add: json_plain_def)

text \<open>
  Claim C10.  The middleware reads the body and passes the result of \<open>Verify\<close>, called
  with the request whose body is a reader of the bytes read, to its last part.  When
  \<open>Verify\<close> fails with an \<open>Error\<close>, the middleware makes exactly these calls on the
  response writer and no other: Content-Type set to application/json, Content-Length set
  to the length of the body in decimal, the status code of the error (400 or 401), and
  one write of the JSON object with the message of the error; the result is the same for
  every inner handler, which is not called.  An error that is no \<open>Error\<close> gives the
  same with status 401 and the message "Could not validate authenticity of the request".
  When \<open>Verify\<close> succeeds the result is that of the inner handler, called with the
  untouched response writer and the request whose body reads the original bytes again.
\<close>

theorem Negroni_responses:
  "ReadFrom (Body req) = (b, None) \<longrightarrow>
     Negroni env v rw req next =
       Negroni_respond (Verify env v (req\<lparr>Body := bytes_NewReader b\<rparr>) (bytes_NewReader b))
         rw (req\<lparr>Body := bytes_NewReader b\<rparr>) next
   \<and> (Verify env v (req\<lparr>Body := bytes_NewReader b\<rparr>) (bytes_NewReader b) = Return (Some (Err e)) \<longrightarrow>
        Negroni env v rw req next = Return (rw @ spec_error_response (Code e) (Message e))
        \<and> (Code e = 400 \<or> Code e = 401))
   \<and> ((\<forall>e'. err \<noteq> Err e') \<longrightarrow>
        Negroni_respond (Return (Some err)) rw (req\<lparr>Body := bytes_NewReader b\<rparr>) next =
          Return (rw @ spec_error_response 401 ''Could not validate authenticity of the request''))
   \<and> (Verify env v (req\<lparr>Body := bytes_NewReader b\<rparr>) (bytes_NewReader b) = Return None \<longrightarrow>
        Negroni env v rw req next = next rw (req\<lparr>Body := bytes_NewReader b\<rparr>)
        \<and> ReadFrom (Body (req\<lparr>Body := bytes_NewReader b\<rparr>)) = (b, None))"
proof (intro impI conjI)
  assume rd: "ReadFrom (Body req) = (b, None)"
  show "Negroni env v rw req next =
       Negroni_respond (Verify env v (req\<lparr>Body := bytes_NewReader b\<rparr>) (bytes_NewReader b))
         rw (req\<lparr>Body := bytes_NewReader b\<rparr>) next"
    by (simp add: Negroni_def rd Let_def)
next
  assume rd: "ReadFrom (Body req) = (b, None)"
  assume ve: "Verify env v (req\<lparr>Body := bytes_NewReader b\<rparr>) (bytes_NewReader b)
                = Return (Some (Err e))"
  show "Negroni env v rw req next = Return (rw @ spec_error_response (Code e) (Message e))"
    using Verify_error_plain [OF ve]
    by (simp add: Negroni_def Negroni_respond_def Let_def rd ve Respond_plain)
  show "Code e = 400 \<or> Code e = 401"
    using Verify_error_plain [OF ve] by simp
next
  assume rd: "ReadFrom (Body req) = (b, None)"
  assume "\<forall>e'. err \<noteq> Err e'"
  then have "Negroni_respond (Return (Some err)) rw (req\<lparr>Body := bytes_NewReader b\<rparr>) next =
          Respond (Error 401 ''Could not validate authenticity of the request'') rw"
    by (cases err) (simp_all add: Negroni_respond_def)
  then show "Negroni_respond (Return (Some err)) rw (req\<lparr>Body := bytes_NewReader b\<rparr>) next =
          Return (rw @ spec_error_response 401 ''Could not validate authenticity of the request'')"
    by (simp add: Respond_plain plain_generic)
next
  assume rd: "ReadFrom (Body req) = (b, None)"
  assume ok: "Verify env v (req\<lparr>Body := bytes_NewReader b\<rparr>) (bytes_NewReader b) = Return None"
  show "Negroni env v rw req next = next rw (req\<lparr>Body := bytes_NewReader b\<rparr>)"
    by (simp add: Negroni_def Negroni_respond_def Let_def rd ok)
  show "ReadFrom (Body (req\<lparr>Body := bytes_NewReader b\<rparr>)) = (b, None)"
    by (simp add: bytes_NewReader_def)
qed

lemma ReadFrom_signed_request:
  "ReadFrom (Body (signed_request d s)) = (''Test body data'', None)"
  by (simp add: signed_request_def)

lemma signed_request_Body:
  "(signed_request d s)\<lparr>Body := bytes_NewReader ''Test body data''\<rparr> = signed_request d s"
  by (simp add: signed_request_def bytes_NewReader_def)

lemma example_error_response:
  \<open>spec_error_response 400 ''Could not parse X-Signature header'' =
     [Header_Set_call ''Content-Type'' ''application/json'',
      Header_Set_call ''Content-Length'' ''48'',
      WriteHeader 400,
      Write ''{"message":"Could not parse X-Signature header"}'']\<close>
  by code_simp

lemma generic_error_response:
  \<open>spec_error_response 401 ''Could not validate authenticity of the request'' =
     [Header_Set_call ''Content-Type'' ''application/json'',
      Header_Set_call ''Content-Length'' ''60'',
      WriteHeader 401,
      Write ''{"message":"Could not validate authenticity of the request"}'']\<close>
  by code_simp

theorem Negroni_responses_witness:
  \<open>Negroni (example_env 1488758288000000000) example_verifier []
      (signed_request ''2017-03-05T23:53:08Z'' ''AA AA'') echo_handler
     = Return [Header_Set_call ''Content-Type'' ''application/json'',
               Header_Set_call ''Content-Length'' ''48'',
               WriteHeader 400,
               Write ''{"message":"Could not parse X-Signature header"}'']
   \<and> Negroni_respond (Return (Some ErrInvalidPublicKey)) []
      (signed_request ''2017-03-05T23:53:08Z'' ''AA AA'') echo_handler
     = Return [Header_Set_call ''Content-Type'' ''application/json'',
               Header_Set_call ''Content-Length'' ''60'',
               WriteHeader 401,
               Write ''{"message":"Could not validate authenticity of the request"}'']
   \<and> Negroni (example_env 1488758288000000000) example_verifier []
      (signed_request ''2017-03-05T23:53:08Z'' signature_2017) echo_handler
     = Return [Write ''Test body data'']\<close>
proof -
  let ?env = "example_env 1488758288000000000"
  let ?bad = "signed_request ''2017-03-05T23:53:08Z'' ''AA AA''"
  let ?good = "signed_request ''2017-03-05T23:53:08Z'' signature_2017"
  let ?b = "''Test body data''"
  have bad: "Verify ?env example_verifier (?bad\<lparr>Body := bytes_NewReader ?b\<rparr>) (bytes_NewReader ?b)
             = Return (Some (Err (Error 400 ''Could not parse X-Signature header'')))"
    unfolding signed_request_Body
    by (simp add: bytes_NewReader_def Verify_def Get_X_Signature Parse_two_tokens)
  have good: "Verify ?env example_verifier (?good\<lparr>Body := bytes_NewReader ?b\<rparr>)
               (bytes_NewReader ?b) = Return None"
    unfolding signed_request_Body
    using Verify_skew_boundary by (simp add: bytes_NewReader_def)
  have r1: "Negroni ?env example_verifier [] ?bad echo_handler
            = Return ([] @ spec_error_response (Code (Error 400 ''Could not parse X-Signature header''))
                             (Message (Error 400 ''Could not parse X-Signature header'')))"
    using Negroni_responses [of ?bad ?b ?env example_verifier "[]" echo_handler
        "Error 400 ''Could not parse X-Signature header''"]
      ReadFrom_signed_request [of "''2017-03-05T23:53:08Z''" "''AA AA''"] bad
    by blast
  have r2: "Negroni ?env example_verifier [] ?good echo_handler
            = echo_handler [] (?good\<lparr>Body := bytes_NewReader ?b\<rparr>)"
    using Negroni_responses [of ?good ?b ?env example_verifier "[]" echo_handler]
      ReadFrom_signed_request [of "''2017-03-05T23:53:08Z''" signature_2017] good
    by blast
  have unclassified: "\<forall>e'. ErrInvalidPublicKey \<noteq> Err e'"
    by simp
  have r3: "Negroni_respond (Return (Some ErrInvalidPublicKey)) []
              (?bad\<lparr>Body := bytes_NewReader ?b\<rparr>) echo_handler
     = Return ([] @ spec_error_response 401 ''Could not validate authenticity of the request'')"
    using Negroni_responses [of ?bad ?b ?env example_verifier "[]" echo_handler _
        ErrInvalidPublicKey]
      ReadFrom_signed_request [of "''2017-03-05T23:53:08Z''" "''AA AA''"] unclassified
    by blast
  show ?thesis
    using r1 r2 r3 unfolding signed_request_Body
    by (simp add: example_error_response generic_error_response echo_handler_def
        ReadFrom_signed_request)
qed

end
